theory Spec2Isabelle
  imports Complex_Main
begin

unbundle bit_operations_syntax

section \<open>Python values and failures\<close>

text \<open>
  The importer is Python: integers are unbounded (\<open>int\<close>), a failed subscript, a missing
  key, a failed \<open>assert\<close> and a read of a local variable that was never assigned raise.
  Every raise of the modelled code is a value \<open>Inl e\<close>; nothing in \<open>import_dts.py\<close>
  catches an exception except the \<open>try\<close> around the image load.
\<close>

datatype error = AssertionError | IndexError | KeyError | UnboundLocalError

text \<open>Sequencing of fallible steps: the first raise ends the computation.\<close>

definition and_then :: "error + 'a \<Rightarrow> ('a \<Rightarrow> error + 'b) \<Rightarrow> error + 'b" where
  "and_then r f = (case r of Inl e \<Rightarrow> Inl e | Inr x \<Rightarrow> f x)"

text \<open>
  \<open>xs[i]\<close> on a Python list of length \<open>n\<close>: positions \<open>0 .. n-1\<close> are read directly,
  \<open>-n .. -1\<close> count from the end, everything else raises IndexError. \<open>py_slot\<close>
  is the position that is read, \<open>py_index\<close> the element.
\<close>

definition py_slot :: "nat \<Rightarrow> int \<Rightarrow> error + nat" where
  "py_slot n i =
     (if 0 \<le> i \<and> i < int n then Inr (nat i)
      else if - int n \<le> i \<and> i < 0 then Inr (nat (int n + i))
      else Inl IndexError)"

definition py_index :: "'a list \<Rightarrow> int \<Rightarrow> error + 'a" where
  "py_index xs i = and_then (py_slot (length xs) i) (\<lambda>k. Inr (xs ! k))"

text \<open>\<open>range(a, b, s)\<close> for a positive step, the only kind the importer uses.\<close>

function py_range :: "int \<Rightarrow> int \<Rightarrow> int \<Rightarrow> int list" where
  "py_range a b s = (if 0 < s \<and> a < b then a # py_range (a + s) b s else [])"
  by pat_completeness auto
termination
  by (relation "measure (\<lambda>(a, b, s). nat (b - a))") auto

declare py_range.simps [simp del]

section \<open>The shape asset (DtsShape, DtsTypes)\<close>

text \<open>
  \<open>DtsTypes\<close> is not part of the sources at hand: the flag constants it declares are
  parameters of the model. \<open>Material_dts\<close> and \<open>Primitive_dts\<close> below are the values of
  the DTS file format, used where a concrete input is evaluated.
\<close>

record Material_consts =
  SWrap :: int
  TWrap :: int
  Translucent :: int
  Additive :: int
  Subtractive :: int
  SelfIlluminating :: int
  NeverEnvMap :: int
  NoMipMap :: int
  IFLMaterial :: int

definition Material_dts :: Material_consts where
  "Material_dts = \<lparr> SWrap = 1, TWrap = 2, Translucent = 4, Additive = 8, Subtractive = 16,
     SelfIlluminating = 32, NeverEnvMap = 64, NoMipMap = 128, IFLMaterial = 134217728 \<rparr>"

record Material =
  mat_name :: string
  mat_flags :: int

section \<open>Material resolution: \<open>import_material\<close>\<close>

type_synonym rgb = "real \<times> real \<times> real"

datatype image = Image string

text \<open>Custom properties \<open>bmat["key"] = value\<close> of a host material.\<close>

datatype idprop = PBool bool | PStr string | PInt int | PReal real

record bmat =
  bm_name :: string
  bm_texture_image :: "image option"
  bm_diffuse_color :: "rgb option"
  bm_use_shadeless :: bool
  bm_use_transparency :: bool
  bm_props :: "string \<rightharpoonup> idprop"

text \<open>\<open>bpy.data.materials.new(name)\<close>: a fresh material, host defaults everywhere.\<close>

definition materials_new :: "string \<Rightarrow> bmat" where
  "materials_new n = \<lparr> bm_name = n, bm_texture_image = None, bm_diffuse_color = None,
     bm_use_shadeless = False, bm_use_transparency = False, bm_props = Map.empty \<rparr>"

definition default_materials :: "(string \<times> rgb) list" where
  "default_materials =
    [(''black'', (0 / 255, 0 / 255, 0 / 255)),
     (''black25'', (191 / 255, 191 / 255, 191 / 255)),
     (''black50'', (128 / 255, 128 / 255, 128 / 255)),
     (''black75'', (64 / 255, 64 / 255, 64 / 255)),
     (''blank'', (255 / 255, 255 / 255, 255 / 255)),
     (''blue'', (0 / 255, 0 / 255, 255 / 255)),
     (''darkRed'', (128 / 255, 0 / 255, 0 / 255)),
     (''gray25'', (64 / 255, 64 / 255, 64 / 255)),
     (''gray50'', (128 / 255, 128 / 255, 128 / 255)),
     (''gray75'', (191 / 255, 191 / 255, 191 / 255)),
     (''green'', (26 / 255, 128 / 255, 64 / 255)),
     (''lightBlue'', (10 / 255, 186 / 255, 245 / 255)),
     (''lightYellow'', (249 / 255, 249 / 255, 99 / 255)),
     (''palegreen'', (125 / 255, 136 / 255, 104 / 255)),
     (''red'', (213 / 255, 0 / 255, 0 / 255)),
     (''white'', (255 / 255, 255 / 255, 255 / 255)),
     (''yellow'', (255 / 255, 255 / 255, 0 / 255))]"

text \<open>
  The file system, the image store and the random generator are the host's. \<open>tex_search\<close>
  is the outcome of the directory walk of lines 44 to 63 for a material name: the path
  \<open>texname\<close> when \<open>found_tex\<close> ends True. \<open>images_load\<close> is
  \<open>bpy.data.images.load\<close>, \<open>None\<close> when it raises. \<open>random_color k\<close> is the triple the
  three calls of \<open>random()\<close> return in the \<open>k\<close>-th call of \<open>import_material\<close>.
\<close>

record host =
  tex_search :: "string \<Rightarrow> string option"
  images_load :: "string \<Rightarrow> image option"
  random_color :: "nat \<Rightarrow> rgb"

text \<open>
  Lines 65 to 77. The \<open>except\<close> branch of the load only prints, so after a failed load the
  local \<open>teximg\<close> is unassigned and line 73 (\<open>tex.image = teximg\<close>) raises
  UnboundLocalError.
\<close>

definition bind_texture :: "host \<Rightarrow> nat \<Rightarrow> Material \<Rightarrow> bmat \<Rightarrow> error + bmat" where
  "bind_texture h k dmat b =
     (case tex_search h (mat_name dmat) of
        Some texname \<Rightarrow>
          (case images_load h texname of
             None \<Rightarrow> Inl UnboundLocalError
           | Some teximg \<Rightarrow> Inr (b\<lparr>bm_texture_image := Some teximg\<rparr>))
      | None \<Rightarrow>
          (case map_of default_materials (mat_name dmat) of
             Some c \<Rightarrow> Inr (b\<lparr>bm_diffuse_color := Some c\<rparr>)
           | None \<Rightarrow> Inr (b\<lparr>bm_diffuse_color := Some (random_color h k)\<rparr>)))"

text \<open>Lines 84 to 91: the value stored under \<open>"blendMode"\<close>, if any.\<close>

definition blend_mode :: "Material_consts \<Rightarrow> int \<Rightarrow> string option" where
  "blend_mode mc flags =
     (if flags AND (Additive mc OR Subtractive mc) \<noteq> 0 then Some ''both''
      else if flags AND Additive mc \<noteq> 0 then Some ''additive''
      else if flags AND Subtractive mc \<noteq> 0 then Some ''subtractive''
      else if flags AND Translucent mc \<noteq> 0 then Some ''none''
      else None)"

definition set_prop :: "string \<Rightarrow> idprop \<Rightarrow> bmat \<Rightarrow> bmat" where
  "set_prop k v b = b\<lparr>bm_props := (bm_props b)(k \<mapsto> v)\<rparr>"

definition set_when :: "bool \<Rightarrow> (bmat \<Rightarrow> bmat) \<Rightarrow> bmat \<Rightarrow> bmat" where
  "set_when c f b = (if c then f b else b)"

text \<open>Lines 79 to 102, in the order of the source.\<close>

definition flag_props :: "Material_consts \<Rightarrow> int \<Rightarrow> bmat \<Rightarrow> bmat" where
  "flag_props mc flags b0 =
     (let b1 = set_when (flags AND SelfIlluminating mc \<noteq> 0) (\<lambda>b. b\<lparr>bm_use_shadeless := True\<rparr>) b0;
          b2 = set_when (flags AND Translucent mc \<noteq> 0) (\<lambda>b. b\<lparr>bm_use_transparency := True\<rparr>) b1;
          b3 = (case blend_mode mc flags of None \<Rightarrow> b2
                | Some m \<Rightarrow> set_prop ''blendMode'' (PStr m) b2);
          b4 = set_when (flags AND SWrap mc = 0) (set_prop ''noSWrap'' (PBool True)) b3;
          b5 = set_when (flags AND TWrap mc = 0) (set_prop ''noTWrap'' (PBool True)) b4;
          b6 = set_when (flags AND NeverEnvMap mc = 0) (set_prop ''envMap'' (PBool True)) b5;
          b7 = set_when (flags AND NoMipMap mc = 0) (set_prop ''mipMap'' (PBool True)) b6
      in set_when (flags AND IFLMaterial mc \<noteq> 0) (set_prop ''ifl'' (PBool True)) b7)"

definition import_material :: "Material_consts \<Rightarrow> host \<Rightarrow> nat \<Rightarrow> Material \<Rightarrow> error + bmat" where
  "import_material mc h k dmat =
     and_then (bind_texture h k dmat (materials_new (mat_name dmat)))
       (\<lambda>b. Inr (flag_props mc (mat_flags dmat) b))"

section \<open>The rest of the shape asset\<close>

record Primitive_consts =
  Indexed :: int
  NoMaterial :: int
  MaterialMask :: int
  Strip :: int
  Fan :: int

definition Primitive_dts :: Primitive_consts where
  "Primitive_dts = \<lparr> Indexed = 536870912, NoMaterial = 268435456, MaterialMask = 268435455,
     Strip = 1073741824, Fan = 2147483648 \<rparr>"

record Primitive =
  prim_type :: int
  firstElement :: int
  numElements :: int

type_synonym vec3 = "real \<times> real \<times> real"
type_synonym tvert = "real \<times> real"

record Quaternion =
  qx :: real
  qy :: real
  qz :: real
  qw :: real

datatype MeshType = Standard | Null | Unsupported string

record Mesh =
  mesh_type :: MeshType
  verts :: "vec3 list"
  normals :: "vec3 list"
  tverts :: "tvert list"
  indices :: "int list"
  primitives :: "Primitive list"

record Node =
  node_name :: int
  node_parent :: int

record Object =
  obj_name :: int
  obj_node :: int
  firstMesh :: int
  numMeshes :: int

record DetailLevel =
  lod_name :: int
  objectDetail :: int

record IFLEntry =
  ifl_slot :: int
  ifl_name :: int
  firstFrame :: int
  numFrames :: int
  ifl_time :: real

record Shape =
  sh_names :: "string list"
  sh_nodes :: "Node list"
  sh_materials :: "Material list"
  sh_iflmaterials :: "IFLEntry list"
  sh_meshes :: "Mesh list"
  sh_objects :: "Object list"
  sh_detail_levels :: "DetailLevel list"
  sh_default_translations :: "vec3 list"
  sh_default_rotations :: "Quaternion list"

section \<open>Mesh assembly: \<open>create_bmesh\<close>\<close>

type_synonym tri = "int \<times> int \<times> int"

text \<open>A tuple \<open>(indices[a], indices[b], indices[c])\<close>, read left to right.\<close>

definition tri_at :: "int list \<Rightarrow> int \<Rightarrow> int \<Rightarrow> int \<Rightarrow> error + tri" where
  "tri_at ixs a b c =
     and_then (py_index ixs a) (\<lambda>x.
     and_then (py_index ixs b) (\<lambda>y.
     and_then (py_index ixs c) (\<lambda>z. Inr (x, y, z))))"

text \<open>
  Lines 130 to 136, the strip loop: the second argument \<open>ev\<close> is the flag \<open>even\<close>, the third the
  values \<open>i\<close> still to visit. The result is the triangles appended to \<open>faces\<close>.
\<close>

fun strip_loop :: "int list \<Rightarrow> bool \<Rightarrow> int list \<Rightarrow> error + tri list" where
  "strip_loop ixs ev [] = Inr []"
| "strip_loop ixs ev (i # rest) =
     and_then (if ev then tri_at ixs i (i - 1) (i - 2) else tri_at ixs (i - 2) (i - 1) i) (\<lambda>t.
     and_then (strip_loop ixs (\<not> ev) rest) (\<lambda>ts. Inr (t # ts)))"

text \<open>Lines 138 to 144, the fan loop: as the source has it, with \<open>indices[0]\<close>.\<close>

fun fan_loop :: "int list \<Rightarrow> bool \<Rightarrow> int list \<Rightarrow> error + tri list" where
  "fan_loop ixs ev [] = Inr []"
| "fan_loop ixs ev (i # rest) =
     and_then (if ev then tri_at ixs i (i - 1) 0 else tri_at ixs 0 (i - 1) i) (\<lambda>t.
     and_then (fan_loop ixs (\<not> ev) rest) (\<lambda>ts. Inr (t # ts)))"

text \<open>Lines 146 to 147, the triangle-list loop.\<close>

fun list_loop :: "int list \<Rightarrow> int list \<Rightarrow> error + tri list" where
  "list_loop ixs [] = Inr []"
| "list_loop ixs (i # rest) =
     and_then (tri_at ixs i (i - 1) (i - 2)) (\<lambda>t.
     and_then (list_loop ixs rest) (\<lambda>ts. Inr (t # ts)))"

text \<open>Lines 129 to 147: the triangles one primitive contributes, in the order appended.\<close>

definition prim_faces :: "Primitive_consts \<Rightarrow> int list \<Rightarrow> Primitive \<Rightarrow> error + tri list" where
  "prim_faces pc ixs prim =
     (if prim_type prim AND Strip pc \<noteq> 0 then
        strip_loop ixs True (py_range (firstElement prim + 2) (firstElement prim + numElements prim) 1)
      else if prim_type prim AND Fan pc \<noteq> 0 then
        fan_loop ixs True (py_range (firstElement prim + 2) (firstElement prim + numElements prim) 1)
      else
        list_loop ixs (py_range (firstElement prim + 2) (firstElement prim + numElements prim) 3))"

text \<open>
  A material descriptor \<open>dmat\<close> is an object of the list \<open>shape.materials\<close>, used as a
  dictionary key by identity: the model names it by its position in that list. Lines 120
  to 127: the descriptor of a primitive, entered into \<open>material_indices\<close> and
  \<open>me.materials\<close> when first seen. \<open>materials\<close> is the dictionary from descriptors to
  host materials that \<open>load\<close> built.
\<close>

definition prim_material ::
  "Primitive_consts \<Rightarrow> Shape \<Rightarrow> (nat \<rightharpoonup> bmat) \<Rightarrow> (nat \<rightharpoonup> nat) \<times> bmat list \<Rightarrow> Primitive
     \<Rightarrow> error + (nat option \<times> (nat \<rightharpoonup> nat) \<times> bmat list)" where
  "prim_material pc shape materials st prim =
     (if prim_type prim AND NoMaterial pc \<noteq> 0 then Inr (None, st)
      else
        and_then (py_slot (length (sh_materials shape)) (prim_type prim AND MaterialMask pc)) (\<lambda>dmat.
          if fst st dmat \<noteq> None then Inr (Some dmat, st)
          else (case materials dmat of
                  None \<Rightarrow> Inl KeyError
                | Some b \<Rightarrow> Inr (Some dmat, (fst st)(dmat \<mapsto> length (snd st)), snd st @ [b]))))"

text \<open>
  Lines 117 to 147: the loop over the primitives. The state is \<open>faces\<close> with
  \<open>material_indices\<close> and \<open>me.materials\<close>.
\<close>

fun mesh_faces ::
  "Primitive_consts \<Rightarrow> Shape \<Rightarrow> (nat \<rightharpoonup> bmat) \<Rightarrow> int list
     \<Rightarrow> (tri \<times> nat option) list \<times> (nat \<rightharpoonup> nat) \<times> bmat list \<Rightarrow> Primitive list
     \<Rightarrow> error + ((tri \<times> nat option) list \<times> (nat \<rightharpoonup> nat) \<times> bmat list)" where
  "mesh_faces pc shape materials ixs st [] = Inr st"
| "mesh_faces pc shape materials ixs st (prim # rest) =
     (if prim_type prim AND Indexed pc = 0 then Inl AssertionError
      else
        and_then (prim_material pc shape materials (snd st) prim) (\<lambda>(dmat, ms).
        and_then (prim_faces pc ixs prim) (\<lambda>ts.
          mesh_faces pc shape materials ixs (fst st @ map (\<lambda>t. (t, dmat)) ts, ms) rest)))"

record polygon =
  loop_start :: nat
  loop_total :: nat
  material_index :: nat

record bmesh =
  me_materials :: "bmat list"
  me_vertices_co :: "vec3 list"
  me_vertices_normal :: "vec3 list"
  me_polygons :: "polygon list"
  me_loops_vertex_index :: "int list"
  me_uv :: "tvert list"

text \<open>The tuple \<open>verts\<close> of a face, as the sequence that line 166 walks.\<close>

definition tri_list :: "tri \<Rightarrow> int list" where
  "tri_list t = (case t of (a, b, c) \<Rightarrow> [a, b, c])"

text \<open>Lines 167 to 169 for one corner: the loop's vertex index and its UV.\<close>

definition corner :: "tvert list \<Rightarrow> int \<Rightarrow> error + (int \<times> tvert)" where
  "corner tvs index = and_then (py_index tvs index) (\<lambda>uv. Inr (index, (fst uv, 1 - snd uv)))"

text \<open>
  Lines 159 to 169: polygon \<open>i\<close> owns the loops \<open>3 i, 3 i + 1, 3 i + 2\<close>. A polygon
  without a material keeps the host's \<open>material_index\<close> 0; a descriptor object is true
  in the test of line 163.
\<close>

fun mesh_polys ::
  "tvert list \<Rightarrow> (nat \<rightharpoonup> nat) \<Rightarrow> nat \<Rightarrow> (tri \<times> nat option) list
     \<Rightarrow> error + (polygon \<times> (int \<times> tvert) list) list" where
  "mesh_polys tvs mi i [] = Inr []"
| "mesh_polys tvs mi i (((a, b, c), dmat) # rest) =
     and_then (case dmat of None \<Rightarrow> Inr 0
               | Some d \<Rightarrow> (case mi d of None \<Rightarrow> Inl KeyError | Some m \<Rightarrow> Inr m)) (\<lambda>m.
     and_then (corner tvs a) (\<lambda>ca.
     and_then (corner tvs b) (\<lambda>cb.
     and_then (corner tvs c) (\<lambda>cc.
     and_then (mesh_polys tvs mi (Suc i) rest) (\<lambda>ps.
       Inr ((\<lparr> loop_start = i * 3, loop_total = 3, material_index = m \<rparr>, [ca, cb, cc]) # ps))))))"

text \<open>
  \<open>create_bmesh\<close>, up to the call of the host's \<open>me.validate()\<close>, which is outside
  the importer.
\<close>

definition create_bmesh ::
  "Primitive_consts \<Rightarrow> Shape \<Rightarrow> (nat \<rightharpoonup> bmat) \<Rightarrow> Mesh \<Rightarrow> error + bmesh" where
  "create_bmesh pc shape materials dmesh =
     and_then (mesh_faces pc shape materials (indices dmesh) ([], Map.empty, []) (primitives dmesh))
       (\<lambda>(faces, mi, mm).
     and_then (mesh_polys (tverts dmesh) mi 0 faces) (\<lambda>ps.
       Inr \<lparr> me_materials = mm,
             me_vertices_co = verts dmesh,
             me_vertices_normal = normals dmesh,
             me_polygons = map fst ps,
             me_loops_vertex_index = map fst (concat (map snd ps)),
             me_uv = map snd (concat (map snd ps)) \<rparr>))"

section \<open>The driver: \<open>load\<close>\<close>

definition blockhead_nodes :: "string list" where
  "blockhead_nodes = [''HeadSkin'', ''chest'', ''Larm'', ''Lhand'', ''Rarm'', ''Rhand'',
     ''pants'', ''LShoe'', ''RShoe'']"

text \<open>
  Lines 193 to 194: one host material per descriptor, in list order. The dictionary
  \<open>materials\<close> is keyed by descriptor, so it is the list of handles parallel to
  \<open>shape.materials\<close>; \<open>k\<close> counts the calls made so far.
\<close>

fun import_materials :: "Material_consts \<Rightarrow> host \<Rightarrow> nat \<Rightarrow> Material list \<Rightarrow> error + bmat list" where
  "import_materials mc h k [] = Inr []"
| "import_materials mc h k (dmat # rest) =
     and_then (import_material mc h k dmat) (\<lambda>b.
     and_then (import_materials mc h (Suc k) rest) (\<lambda>bs. Inr (b # bs)))"

text \<open>\<open>materials[dmat]\<close> for the descriptor at position \<open>k\<close>.\<close>

definition materials_of :: "bmat list \<Rightarrow> nat \<rightharpoonup> bmat" where
  "materials_of bs k = (if k < length bs then Some (bs ! k) else None)"

text \<open>Lines 200 to 203: the four properties copied from an entry, \<open>n\<close> being its name.\<close>

definition ifl_props :: "string \<Rightarrow> IFLEntry \<Rightarrow> bmat \<Rightarrow> bmat" where
  "ifl_props n ifl mat =
     set_prop ''iflTime'' (PReal (ifl_time ifl))
       (set_prop ''iflNumFrames'' (PInt (numFrames ifl))
         (set_prop ''iflFirstFrame'' (PInt (firstFrame ifl))
           (set_prop ''iflName'' (PStr n) mat)))"

text \<open>
  Lines 197 to 203. \<open>mat["ifl"]\<close> raises KeyError when the property was never set; the
  comparison with \<open>True\<close> is what the \<open>assert\<close> checks.
\<close>

definition ifl_step :: "Shape \<Rightarrow> bmat list \<Rightarrow> IFLEntry \<Rightarrow> error + bmat list" where
  "ifl_step shape bs ifl =
     and_then (py_slot (length (sh_materials shape)) (ifl_slot ifl)) (\<lambda>k.
     and_then (case materials_of bs k of None \<Rightarrow> Inl KeyError | Some mat \<Rightarrow> Inr mat) (\<lambda>mat.
     and_then (case bm_props mat ''ifl'' of
                 None \<Rightarrow> Inl KeyError
               | Some v \<Rightarrow> if v = PBool True then Inr () else Inl AssertionError) (\<lambda>_.
     and_then (py_index (sh_names shape) (ifl_name ifl)) (\<lambda>n.
       Inr (bs[k := ifl_props n ifl mat])))))"

fun ifl_loop :: "Shape \<Rightarrow> bmat list \<Rightarrow> IFLEntry list \<Rightarrow> error + bmat list" where
  "ifl_loop shape bs [] = Inr bs"
| "ifl_loop shape bs (ifl # rest) =
     and_then (ifl_step shape bs ifl) (\<lambda>bs'. ifl_loop shape bs' rest)"

text \<open>Lines 206 to 209: the dictionary \<open>lod_by_mesh\<close>; a later level overwrites an earlier one.\<close>

fun lod_by_mesh :: "(int \<rightharpoonup> DetailLevel) \<Rightarrow> DetailLevel list \<Rightarrow> (int \<rightharpoonup> DetailLevel)" where
  "lod_by_mesh m [] = m"
| "lod_by_mesh m (lod # rest) = lod_by_mesh (m(objectDetail lod \<mapsto> lod)) rest"

text \<open>The claim's words: the last detail level, in shape order, with a given \<open>objectDetail\<close>.\<close>

definition last_lod_for :: "DetailLevel list \<Rightarrow> int \<Rightarrow> DetailLevel option" where
  "last_lod_for lods i = find (\<lambda>lod. objectDetail lod = i) (rev lods)"

text \<open>Line 216: the node names, joined by newlines.\<close>

fun collect :: "('a \<Rightarrow> error + 'b) \<Rightarrow> 'a list \<Rightarrow> error + 'b list" where
  "collect f [] = Inr []"
| "collect f (x # xs) = and_then (f x) (\<lambda>y. and_then (collect f xs) (\<lambda>ys. Inr (y # ys)))"

fun join_lines :: "string list \<Rightarrow> string" where
  "join_lines [] = []"
| "join_lines [l] = l"
| "join_lines (l # ls) = l @ CHR 0x0A # join_lines ls"

definition node_order :: "Shape \<Rightarrow> error + string" where
  "node_order shape =
     and_then (collect (\<lambda>node. py_index (sh_names shape) (node_name node)) (sh_nodes shape))
       (\<lambda>ns. Inr (join_lines ns))"

text \<open>
  A host object. \<open>ob_parent\<close> is the position of the parent in \<open>node_obs\<close>;
  \<open>ob_rotation_quaternion\<close> is the tuple \<open>(w, x, y, z)\<close> handed to
  \<open>mathutils.Quaternion\<close>. The draw type and draw size of an empty are the same for
  every node and are left out.
\<close>

record bobject =
  ob_name :: string
  ob_data :: "bmesh option"
  ob_parent :: "nat option"
  ob_location :: "vec3 option"
  ob_rotation_quaternion :: "(real \<times> real \<times> real \<times> real) option"
  ob_hide :: bool

text \<open>Lines 222 to 242: the node loop of mode \<open>"EMPTY"\<close>; \<open>i\<close> is the enumeration index.\<close>

fun node_loop :: "Shape \<Rightarrow> nat \<Rightarrow> bobject list \<Rightarrow> Node list \<Rightarrow> error + bobject list" where
  "node_loop shape i node_obs [] = Inr node_obs"
| "node_loop shape i node_obs (node # rest) =
     and_then (py_index (sh_names shape) (node_name node)) (\<lambda>nm.
     and_then (if node_parent node \<noteq> - 1
               then and_then (py_slot (length node_obs) (node_parent node)) (\<lambda>p. Inr (Some p))
               else Inr None) (\<lambda>par.
     and_then (py_index (sh_default_translations shape) (int i)) (\<lambda>loc.
     and_then (py_index (sh_default_rotations shape) (int i)) (\<lambda>q.
       node_loop shape (Suc i)
         (node_obs @ [\<lparr> ob_name = nm, ob_data = None, ob_parent = par, ob_location = Some loc,
                        ob_rotation_quaternion = Some (- qw q, qx q, qy q, qz q),
                        ob_hide = False \<rparr>]) rest))))"

text \<open>Lines 221 to 246: the modes \<open>"ARMATURE"\<close> and \<open>"BONE"\<close> build nothing.\<close>

definition build_nodes :: "Shape \<Rightarrow> string \<Rightarrow> error + bobject list" where
  "build_nodes shape node_mode =
     (if node_mode = ''EMPTY'' then node_loop shape 0 [] (sh_nodes shape) else Inr [])"

text \<open>
  The part of the host scene the object loop writes: the mesh objects created, in creation
  order, and \<open>bpy.data.groups\<close>, each group with the positions (in \<open>sc_objects\<close>) of the
  objects this import linked to it.
\<close>

record scene =
  sc_objects :: "bobject list"
  sc_groups :: "string \<rightharpoonup> nat list"

text \<open>Lines 329 to 332: the group is created on first use, then the object is linked.\<close>

definition group_link :: "string \<Rightarrow> nat \<Rightarrow> (string \<rightharpoonup> nat list) \<Rightarrow> (string \<rightharpoonup> nat list)" where
  "group_link g ob gs = (case gs g of None \<Rightarrow> gs(g \<mapsto> [ob]) | Some obs \<Rightarrow> gs(g \<mapsto> obs @ [ob]))"

text \<open>
  Lines 307 to 332: the body of the inner loop, for one object and one \<open>meshIndex\<close>.
  The message printed for an unsupported mesh reads the object's name, which can fail.
\<close>

definition place_mesh ::
  "Primitive_consts \<Rightarrow> Shape \<Rightarrow> bmat list \<Rightarrow> (int \<rightharpoonup> DetailLevel) \<Rightarrow> bobject list \<Rightarrow> bool
     \<Rightarrow> scene \<Rightarrow> Object \<Rightarrow> int \<Rightarrow> error + scene" where
  "place_mesh pc shape bs lods node_obs hide_default_player sc obj meshIndex =
     and_then (py_index (sh_meshes shape) (firstMesh obj + meshIndex)) (\<lambda>mesh.
       if mesh_type mesh = Null then Inr sc
       else if mesh_type mesh \<noteq> Standard
         then and_then (py_index (sh_names shape) (obj_name obj)) (\<lambda>nm. Inr sc)
       else
         and_then (create_bmesh pc shape (materials_of bs) mesh) (\<lambda>me.
         and_then (py_index (sh_names shape) (obj_name obj)) (\<lambda>nm.
         and_then (if obj_node obj \<noteq> - 1
                   then and_then (py_slot (length node_obs) (obj_node obj)) (\<lambda>p. Inr (Some p))
                   else Inr None) (\<lambda>par.
         and_then (case lods meshIndex of None \<Rightarrow> Inl KeyError | Some lod \<Rightarrow> Inr lod) (\<lambda>lod.
         and_then (py_index (sh_names shape) (lod_name lod)) (\<lambda>g.
           Inr \<lparr> sc_objects = sc_objects sc @
                   [\<lparr> ob_name = nm, ob_data = Some me, ob_parent = par, ob_location = None,
                      ob_rotation_quaternion = None,
                      ob_hide = (hide_default_player \<and> nm \<notin> set blockhead_nodes) \<rparr>],
                 sc_groups = group_link g (length (sc_objects sc)) (sc_groups sc) \<rparr>))))))"

text \<open>Lines 306 to 332 and 305 to 332: the two nested loops.\<close>

fun mesh_loop ::
  "Primitive_consts \<Rightarrow> Shape \<Rightarrow> bmat list \<Rightarrow> (int \<rightharpoonup> DetailLevel) \<Rightarrow> bobject list \<Rightarrow> bool
     \<Rightarrow> scene \<Rightarrow> Object \<Rightarrow> int list \<Rightarrow> error + scene" where
  "mesh_loop pc shape bs lods node_obs hide sc obj [] = Inr sc"
| "mesh_loop pc shape bs lods node_obs hide sc obj (meshIndex # rest) =
     and_then (place_mesh pc shape bs lods node_obs hide sc obj meshIndex)
       (\<lambda>sc'. mesh_loop pc shape bs lods node_obs hide sc' obj rest)"

fun object_loop ::
  "Primitive_consts \<Rightarrow> Shape \<Rightarrow> bmat list \<Rightarrow> (int \<rightharpoonup> DetailLevel) \<Rightarrow> bobject list \<Rightarrow> bool
     \<Rightarrow> scene \<Rightarrow> Object list \<Rightarrow> error + scene" where
  "object_loop pc shape bs lods node_obs hide sc [] = Inr sc"
| "object_loop pc shape bs lods node_obs hide sc (obj # rest) =
     and_then (mesh_loop pc shape bs lods node_obs hide sc obj (py_range 0 (numMeshes obj) 1))
       (\<lambda>sc'. object_loop pc shape bs lods node_obs hide sc' rest)"

text \<open>
  The pairs of object and \<open>meshIndex\<close> in the order the two loops visit them, and the
  two loops as one loop over these pairs (lemma \<open>object_loop_items\<close>). A pair is
  standard when its mesh exists and has type Standard: these are the pairs for which line
  317 is reached and a mesh object is created.
\<close>

definition work_items :: "Object list \<Rightarrow> (Object \<times> int) list" where
  "work_items objs = concat (map (\<lambda>obj. map (Pair obj) (py_range 0 (numMeshes obj) 1)) objs)"

fun item_loop ::
  "Primitive_consts \<Rightarrow> Shape \<Rightarrow> bmat list \<Rightarrow> (int \<rightharpoonup> DetailLevel) \<Rightarrow> bobject list \<Rightarrow> bool
     \<Rightarrow> scene \<Rightarrow> (Object \<times> int) list \<Rightarrow> error + scene" where
  "item_loop pc shape bs lods node_obs hide sc [] = Inr sc"
| "item_loop pc shape bs lods node_obs hide sc ((obj, meshIndex) # rest) =
     and_then (place_mesh pc shape bs lods node_obs hide sc obj meshIndex)
       (\<lambda>sc'. item_loop pc shape bs lods node_obs hide sc' rest)"

definition is_standard :: "Shape \<Rightarrow> Object \<times> int \<Rightarrow> bool" where
  "is_standard shape item =
     (case py_index (sh_meshes shape) (firstMesh (fst item) + snd item) of
        Inl e \<Rightarrow> False
      | Inr mesh \<Rightarrow> mesh_type mesh = Standard)"

text \<open>
  What \<open>load\<close> leaves behind when it returns \<open>{"FINISHED"}\<close>: the host materials, the text
  \<open>NodeOrder\<close>, the node objects and the scene with the mesh objects and groups.
\<close>

record loaded =
  ld_materials :: "bmat list"
  ld_node_order :: string
  ld_node_obs :: "bobject list"
  ld_scene :: scene

text \<open>
  \<open>load\<close> from line 190 on, for a shape the reader has already decoded. \<open>groups0\<close> are
  the groups the host holds before the import.
\<close>

definition load ::
  "Material_consts \<Rightarrow> Primitive_consts \<Rightarrow> host \<Rightarrow> (string \<rightharpoonup> nat list) \<Rightarrow> Shape \<Rightarrow> string \<Rightarrow> bool
     \<Rightarrow> error + loaded" where
  "load mc pc h groups0 shape node_mode hide_default_player =
     and_then (import_materials mc h 0 (sh_materials shape)) (\<lambda>bs0.
     and_then (ifl_loop shape bs0 (sh_iflmaterials shape)) (\<lambda>bs.
     and_then (node_order shape) (\<lambda>order_buf.
     and_then (build_nodes shape node_mode) (\<lambda>node_obs.
     and_then (object_loop pc shape bs (lod_by_mesh Map.empty (sh_detail_levels shape)) node_obs
                 hide_default_player \<lparr> sc_objects = [], sc_groups = groups0 \<rparr> (sh_objects shape))
       (\<lambda>sc. Inr \<lparr> ld_materials = bs, ld_node_order = order_buf, ld_node_obs = node_obs,
                    ld_scene = sc \<rparr>)))))"

section \<open>Concrete inputs\<close>

text \<open>A host without any texture file, and one whose image store rejects every file.\<close>

definition host_plain :: host where
  "host_plain = \<lparr> tex_search = (\<lambda>n. None), images_load = (\<lambda>p. None),
     random_color = (\<lambda>k. (1 / 2, 1 / 2, 1 / 2)) \<rparr>"

definition host_broken_image :: host where
  "host_broken_image = \<lparr> tex_search = (\<lambda>n. Some (''/shapes/'' @ n @ ''.png'')),
     images_load = (\<lambda>p. None), random_color = (\<lambda>k. (1 / 2, 1 / 2, 1 / 2)) \<rparr>"

text \<open>
  A triangle list over three elements (type Indexed with NoMaterial, \<open>0x30000000\<close>) and
  a primitive without the Indexed bit (type NoMaterial alone, \<open>0x10000000\<close>).
\<close>

definition prim_tri :: Primitive where
  "prim_tri = \<lparr> prim_type = 805306368, firstElement = 0, numElements = 3 \<rparr>"

definition prim_unindexed :: Primitive where
  "prim_unindexed = \<lparr> prim_type = 268435456, firstElement = 0, numElements = 3 \<rparr>"

text \<open>A standard mesh of one triangle, and the same mesh with the unindexed primitive added.\<close>

definition mesh_demo :: Mesh where
  "mesh_demo = \<lparr> mesh_type = Standard,
     verts = [(0, 0, 0), (1, 0, 0), (0, 1, 0)],
     normals = [(0, 0, 1), (0, 0, 1), (0, 0, 1)],
     tverts = [(0, 0), (1, 0), (1 / 4, 3 / 4)],
     indices = [0, 1, 2],
     primitives = [prim_tri] \<rparr>"

definition mesh_unindexed :: Mesh where
  "mesh_unindexed = mesh_demo \<lparr> primitives := [prim_tri, prim_unindexed] \<rparr>"

text \<open>
  A shape with two nodes, the materials red (no flags) and fire (the IFL flag,
  \<open>0x08000000\<close>), one IFL entry for fire, one object with the one mesh and one detail level.
\<close>

definition shape_demo :: Shape where
  "shape_demo = \<lparr> sh_names = [''root'', ''arm'', ''body'', ''detail32'', ''flame''],
     sh_nodes = [\<lparr> node_name = 0, node_parent = - 1 \<rparr>, \<lparr> node_name = 1, node_parent = 0 \<rparr>],
     sh_materials = [\<lparr> mat_name = ''red'', mat_flags = 0 \<rparr>,
                     \<lparr> mat_name = ''fire'', mat_flags = 134217728 \<rparr>],
     sh_iflmaterials = [\<lparr> ifl_slot = 1, ifl_name = 4, firstFrame = 0, numFrames = 4,
                          ifl_time = 1 / 2 \<rparr>],
     sh_meshes = [mesh_demo],
     sh_objects = [\<lparr> obj_name = 2, obj_node = 0, firstMesh = 0, numMeshes = 1 \<rparr>],
     sh_detail_levels = [\<lparr> lod_name = 3, objectDetail = 0 \<rparr>],
     sh_default_translations = [(0, 0, 0), (1, 2, 3)],
     sh_default_rotations = [\<lparr> qx = 0, qy = 0, qz = 0, qw = 1 \<rparr>,
                             \<lparr> qx = 1 / 2, qy = 1 / 2, qz = 1 / 2, qw = 1 / 2 \<rparr>] \<rparr>"

text \<open>The same shape with the IFL entry pointing at red, which has no IFL flag.\<close>

definition shape_ifl_plain :: Shape where
  "shape_ifl_plain = shape_demo \<lparr> sh_iflmaterials :=
     [\<lparr> ifl_slot = 0, ifl_name = 4, firstFrame = 0, numFrames = 4, ifl_time = 1 / 2 \<rparr>] \<rparr>"

text \<open>The same shape with no detail level for mesh index 0.\<close>

definition shape_no_lod :: Shape where
  "shape_no_lod = shape_demo \<lparr> sh_detail_levels := [\<lparr> lod_name = 3, objectDetail = 1 \<rparr>] \<rparr>"

section \<open>Basic facts\<close>

lemma and_then_Inl [simp]: "and_then (Inl e) f = Inl e"
  by (simp add: and_then_def)

lemma and_then_Inr [simp]: "and_then (Inr x) f = f x"
  by (simp add: and_then_def)

lemma and_then_eq_Inr: "and_then r f = Inr y \<longleftrightarrow> (\<exists>x. r = Inr x \<and> f x = Inr y)"
  by (cases r) simp_all

lemma and_then_eq_Inl: "and_then r f = Inl e \<longleftrightarrow> r = Inl e \<or> (\<exists>x. r = Inr x \<and> f x = Inl e)"
  by (cases r) simp_all

lemma py_slot_nat: "k < n \<Longrightarrow> py_slot n (int k) = Inr k"
  by (simp add: py_slot_def)

lemma py_index_nat: "k < length xs \<Longrightarrow> py_index xs (int k) = Inr (xs ! k)"
  by (simp add: py_index_def py_slot_nat)

lemma py_index_in_range: "0 \<le> i \<Longrightarrow> i < int (length xs) \<Longrightarrow> py_index xs i = Inr (xs ! nat i)"
  by (simp add: py_index_def py_slot_def)

lemma py_range_empty: "b \<le> a \<Longrightarrow> py_range a b s = []"
  by (subst py_range.simps) simp

lemma py_range_step: "0 < s \<Longrightarrow> a < b \<Longrightarrow> py_range a b s = a # py_range (a + s) b s"
  by (subst py_range.simps) simp

lemma py_range_Suc: "py_range a (a + int (Suc n)) 1 = a # py_range (a + 1) ((a + 1) + int n) 1"
  by (subst py_range_step) (simp_all add: algebra_simps)

lemma tri_at_in_range:
  "0 \<le> a \<Longrightarrow> a < int (length ixs) \<Longrightarrow> 0 \<le> b \<Longrightarrow> b < int (length ixs) \<Longrightarrow>
   0 \<le> c \<Longrightarrow> c < int (length ixs) \<Longrightarrow>
   tri_at ixs a b c = Inr (ixs ! nat a, ixs ! nat b, ixs ! nat c)"
  by (simp add: tri_at_def py_index_in_range)

section \<open>Material resolution\<close>

lemma and_or_eq_0_int: "(x::int) AND (a OR b) = 0 \<longleftrightarrow> x AND a = 0 \<and> x AND b = 0"
  by (simp add: bit.conj_disj_distrib or_eq_0_iff)

text \<open>
  The test of line 84 is true as soon as one of the two bits is set, so the branches of
  lines 86 to 89 are never taken, whatever the flag constants are.
\<close>

lemma blend_mode_single_unreachable:
  "blend_mode mc flags \<noteq> Some ''additive'' \<and> blend_mode mc flags \<noteq> Some ''subtractive''"
  by (simp add: blend_mode_def and_or_eq_0_int)

lemma blend_mode_additive_bit:
  "flags AND Additive mc \<noteq> 0 \<Longrightarrow> blend_mode mc flags = Some ''both''"
  by (simp add: blend_mode_def and_or_eq_0_int)

lemma blend_mode_subtractive_bit:
  "flags AND Subtractive mc \<noteq> 0 \<Longrightarrow> blend_mode mc flags = Some ''both''"
  by (simp add: blend_mode_def and_or_eq_0_int)

lemma map_of_glass: "map_of default_materials ''glass'' = None"
  by (simp add: default_materials_def)

text \<open>
  C1. The claim gives a material with only the Additive flag the blend mode "additive".
  The importer gives it "both": for the descriptor named glass with flags 8 (Additive
  alone) and no texture file, the handle's \<open>blendMode\<close> is "both".
\<close>

theorem additive_only_is_both:
  "\<exists>b. import_material Material_dts host_plain 0 \<lparr> mat_name = ''glass'', mat_flags = 8 \<rparr> = Inr b
       \<and> bm_props b ''blendMode'' = Some (PStr ''both'')"
  by (simp add: import_material_def bind_texture_def host_plain_def map_of_glass
      flag_props_def blend_mode_def Material_dts_def set_when_def set_prop_def materials_new_def)

lemma import_material_load_failure:
  "tex_search h (mat_name dmat) = Some p \<Longrightarrow> images_load h p = None \<Longrightarrow>
   import_material mc h k dmat = Inl UnboundLocalError"
  by (simp add: import_material_def bind_texture_def)

text \<open>
  C3. The claim lets material resolution complete, without a texture, when the image of a
  found texture file cannot be loaded. The importer raises instead: with a texture file
  found for the material wood and a failing image store, \<open>import_material\<close> ends in
  UnboundLocalError and returns no handle.
\<close>

theorem failed_load_raises:
  "import_material Material_dts host_broken_image 0 \<lparr> mat_name = ''wood'', mat_flags = 0 \<rparr>
     = Inl UnboundLocalError"
  by (simp add: import_material_def bind_texture_def host_broken_image_def)

section \<open>Decoding primitives\<close>

text \<open>
  C2. The claim makes \<open>indices[firstElement]\<close> the pivot of every fan triangle. The
  importer reads \<open>indices[0]\<close>: the indexed fan over the elements 1 to 4 of the buffer
  5, 6, 7, 8, 9 has pivot 6, and the triangles decoded carry 5 in the pivot's place.
\<close>

theorem fan_pivot_is_index_zero:
  "prim_faces Primitive_dts [5, 6, 7, 8, 9]
     \<lparr> prim_type = 2684354560, firstElement = 1, numElements = 4 \<rparr> = Inr [(8, 7, 5), (5, 8, 9)]"
  by code_simp

lemma strip_loop_in_range:
  "2 \<le> a \<Longrightarrow> a + int n \<le> int (length ixs) \<Longrightarrow>
   \<exists>ts. strip_loop ixs ev (py_range a (a + int n) 1) = Inr ts \<and> length ts = n \<and>
        (\<forall>k<n. ts ! k =
           (if ev = even k
            then (ixs ! nat (a + int k), ixs ! nat (a + int k - 1), ixs ! nat (a + int k - 2))
            else (ixs ! nat (a + int k - 2), ixs ! nat (a + int k - 1), ixs ! nat (a + int k))))"
proof (induction n arbitrary: a ev)
  case 0
  then show ?case by (simp add: py_range_empty)
next
  case (Suc n)
  let ?tri = "\<lambda>e i. if e then (ixs ! nat i, ixs ! nat (i - 1), ixs ! nat (i - 2))
                        else (ixs ! nat (i - 2), ixs ! nat (i - 1), ixs ! nat i)"
  from Suc.prems have r: "2 \<le> a + 1" "(a + 1) + int n \<le> int (length ixs)" by simp_all
  from Suc.IH [OF r, of "\<not> ev"] obtain ts where
    ts: "strip_loop ixs (\<not> ev) (py_range (a + 1) ((a + 1) + int n) 1) = Inr ts"
        "length ts = n"
        "\<forall>k<n. ts ! k = ?tri ((\<not> ev) = even k) (a + 1 + int k)"
    by blast
  from Suc.prems have t: "(if ev then tri_at ixs a (a - 1) (a - 2) else tri_at ixs (a - 2) (a - 1) a)
      = Inr (?tri ev a)"
    by (simp add: tri_at_in_range)
  have run: "strip_loop ixs ev (py_range a (a + int (Suc n)) 1) = Inr (?tri ev a # ts)"
    by (simp only: py_range_Suc strip_loop.simps t ts(1) and_then_Inr)
  have nth: "(?tri ev a # ts) ! k = ?tri (ev = even k) (a + int k)" if "k < Suc n" for k
  proof (cases k)
    case 0
    then show ?thesis by simp
  next
    case (Suc k')
    with that ts(3) have "ts ! k' = ?tri ((\<not> ev) = even k') (a + 1 + int k')" by simp
    moreover have "((\<not> ev) = even k') = (ev = even (Suc k'))" by auto
    moreover have "a + 1 + int k' = a + int (Suc k')" by simp
    ultimately show ?thesis using Suc by (simp only: nth_Cons_Suc)
  qed
  show ?case using run ts(2) nth by (intro exI [of _ "?tri ev a # ts"]) simp
qed

text \<open>
  C4. A strip primitive with \<open>N \<ge> 3\<close> elements whose element range lies in the index
  buffer decodes to exactly \<open>N - 2\<close> triangles: triangle \<open>k\<close> belongs to
  \<open>i = firstElement + 2 + k\<close> and is \<open>(indices[i], indices[i-1], indices[i-2])\<close> for even
  \<open>k\<close> and \<open>(indices[i-2], indices[i-1], indices[i])\<close> for odd \<open>k\<close>, in iteration order.
\<close>

theorem strip_decoding:
  assumes "prim_type prim AND Strip pc \<noteq> 0"
    and "3 \<le> numElements prim"
    and "0 \<le> firstElement prim"
    and "firstElement prim + numElements prim \<le> int (length ixs)"
  shows "\<exists>ts. prim_faces pc ixs prim = Inr ts \<and> length ts = nat (numElements prim - 2) \<and>
           (\<forall>k<length ts. ts ! k =
              (let i = nat (firstElement prim) + 2 + k in
               if even k then (ixs ! i, ixs ! (i - 1), ixs ! (i - 2))
               else (ixs ! (i - 2), ixs ! (i - 1), ixs ! i)))"
proof -
  define f where "f = nat (firstElement prim)"
  define n where "n = nat (numElements prim - 2)"
  have fe: "firstElement prim = int f" and ne: "numElements prim = int n + 2"
    using assms by (simp_all add: f_def n_def)
  have rng: "py_range (firstElement prim + 2) (firstElement prim + numElements prim) 1
      = py_range (int f + 2) ((int f + 2) + int n) 1"
    by (simp add: fe ne algebra_simps)
  have "2 \<le> int f + 2" and "(int f + 2) + int n \<le> int (length ixs)"
    using assms by (simp_all add: fe ne)
  from strip_loop_in_range [OF this, of True] obtain ts where
    ts: "strip_loop ixs True (py_range (int f + 2) ((int f + 2) + int n) 1) = Inr ts"
        "length ts = n"
        "\<forall>k<n. ts ! k =
           (if True = even k
            then (ixs ! nat (int f + 2 + int k), ixs ! nat (int f + 2 + int k - 1),
                  ixs ! nat (int f + 2 + int k - 2))
            else (ixs ! nat (int f + 2 + int k - 2), ixs ! nat (int f + 2 + int k - 1),
                  ixs ! nat (int f + 2 + int k)))"
    by blast
  have idx: "nat (int f + 2 + int k) = f + 2 + k" "nat (int f + 2 + int k - 1) = f + 2 + k - 1"
    "nat (int f + 2 + int k - 2) = f + 2 + k - 2" for k
    by linarith+
  have "prim_faces pc ixs prim = Inr ts"
    using assms(1) ts(1) by (simp add: prim_faces_def rng)
  moreover have "\<forall>k<length ts. ts ! k =
      (let i = f + 2 + k in
       if even k then (ixs ! i, ixs ! (i - 1), ixs ! (i - 2))
       else (ixs ! (i - 2), ixs ! (i - 1), ixs ! i))"
    using ts(2,3) by (simp only: idx Let_def simp_thms)
  ultimately show ?thesis using ts(2) by (simp add: f_def n_def)
qed

theorem strip_decoding_witness:
  "(1610612736 AND Strip Primitive_dts \<noteq> 0 \<and> (3::int) \<le> 5 \<and> (0::int) \<le> 0
      \<and> (0::int) + 5 \<le> int (length [10, 11, 12, 13, 14 :: int]))
   \<and> (\<exists>ts. prim_faces Primitive_dts [10, 11, 12, 13, 14]
              \<lparr> prim_type = 1610612736, firstElement = 0, numElements = 5 \<rparr> = Inr ts
            \<and> length ts = 3 \<and> ts ! 0 = (12, 11, 10) \<and> ts ! 1 = (11, 12, 13) \<and> ts ! 2 = (14, 13, 12))"
proof -
  let ?p = "\<lparr> prim_type = 1610612736, firstElement = 0, numElements = 5 \<rparr>"
  have h: "prim_type ?p AND Strip Primitive_dts \<noteq> 0" "3 \<le> numElements ?p"
    "0 \<le> firstElement ?p" "firstElement ?p + numElements ?p \<le> int (length [10, 11, 12, 13, 14 :: int])"
    by (simp_all add: Primitive_dts_def)
  from strip_decoding [OF h] obtain ts where
    ts: "prim_faces Primitive_dts [10, 11, 12, 13, 14] ?p = Inr ts" "length ts = 3"
      "\<forall>k<length ts. ts ! k =
              (let i = nat (firstElement ?p) + 2 + k in
               if even k then ([10, 11, 12, 13, 14 :: int] ! i, [10, 11, 12, 13, 14] ! (i - 1), [10, 11, 12, 13, 14] ! (i - 2))
               else ([10, 11, 12, 13, 14] ! (i - 2), [10, 11, 12, 13, 14] ! (i - 1), [10, 11, 12, 13, 14] ! i))"
    by auto
  have "ts ! 0 = (12, 11, 10)" "ts ! 1 = (11, 12, 13)" "ts ! 2 = (14, 13, 12)"
    using ts(2,3) by (simp_all add: Let_def)
  with ts(1,2) h show ?thesis by (simp add: Primitive_dts_def)
qed

lemma prim_faces_short: "numElements prim < 3 \<Longrightarrow> prim_faces pc ixs prim = Inr []"
  by (simp add: prim_faces_def py_range_empty)

lemma py_range3_trailing:
  "0 \<le> r \<Longrightarrow> r \<le> 2 \<Longrightarrow> py_range (f + 2) (f + (3 * int k + r)) 3 = py_range (f + 2) (f + 3 * int k) 3"
proof (induction k arbitrary: f)
  case 0
  then show ?case by (simp add: py_range_empty)
next
  case (Suc k)
  have "py_range (f + 2) (f + (3 * int (Suc k) + r)) 3
      = (f + 2) # py_range ((f + 3) + 2) ((f + 3) + (3 * int k + r)) 3"
    using Suc.prems by (subst py_range_step) (simp_all add: algebra_simps)
  also have "\<dots> = (f + 2) # py_range ((f + 3) + 2) ((f + 3) + 3 * int k) 3"
    by (simp only: Suc.IH [OF Suc.prems, of "f + 3"])
  also have "\<dots> = py_range (f + 2) (f + 3 * int (Suc k)) 3"
    by (subst (2) py_range_step) (simp_all add: algebra_simps)
  finally show ?case .
qed

lemma list_loop_in_range:
  "0 \<le> f \<Longrightarrow> f + 3 * int k \<le> int (length ixs) \<Longrightarrow>
   \<exists>ts. list_loop ixs (py_range (f + 2) (f + 3 * int k) 3) = Inr ts \<and> length ts = k"
proof (induction k arbitrary: f)
  case 0
  then show ?case by (simp add: py_range_empty)
next
  case (Suc k)
  from Suc.prems have r: "0 \<le> f + 3" "(f + 3) + 3 * int k \<le> int (length ixs)" by simp_all
  from Suc.IH [OF r] obtain ts where
    ts: "list_loop ixs (py_range ((f + 3) + 2) ((f + 3) + 3 * int k) 3) = Inr ts" "length ts = k"
    by blast
  have rng: "py_range (f + 2) (f + 3 * int (Suc k)) 3
      = (f + 2) # py_range ((f + 3) + 2) ((f + 3) + 3 * int k) 3"
    by (subst py_range_step) (simp_all add: algebra_simps)
  have t: "tri_at ixs (f + 2) (f + 2 - 1) (f + 2 - 2)
      = Inr (ixs ! nat (f + 2), ixs ! nat (f + 2 - 1), ixs ! nat (f + 2 - 2))"
    using Suc.prems by (intro tri_at_in_range) simp_all
  have "list_loop ixs (py_range (f + 2) (f + 3 * int (Suc k)) 3)
      = Inr ((ixs ! nat (f + 2), ixs ! nat (f + 2 - 1), ixs ! nat (f + 2 - 2)) # ts)"
    by (simp only: rng list_loop.simps t ts(1) and_then_Inr)
  with ts(2) show ?case by simp
qed

text \<open>
  C9. A primitive with fewer than three elements decodes to no triangle and without a
  failure, whatever its draw mode, its first element and the index buffer. A triangle
  list with \<open>3 k + r\<close> elements, \<open>r\<close> being 1 or 2, decodes exactly as the list of its first
  \<open>3 k\<close> elements does: the trailing elements are never read, and when the \<open>3 k\<close> elements
  lie in the buffer the result is \<open>k\<close> triangles.
\<close>

theorem short_and_trailing_elements:
  "(numElements prim < 3 \<longrightarrow> prim_faces pc ixs prim = Inr [])
   \<and> (prim_type prim AND Strip pc = 0 \<and> prim_type prim AND Fan pc = 0 \<and> (r = 1 \<or> r = 2) \<longrightarrow>
        prim_faces pc ixs (prim\<lparr>numElements := 3 * int k + r\<rparr>)
          = prim_faces pc ixs (prim\<lparr>numElements := 3 * int k\<rparr>)
        \<and> (0 \<le> firstElement prim \<and> firstElement prim + 3 * int k \<le> int (length ixs) \<longrightarrow>
             (\<exists>ts. prim_faces pc ixs (prim\<lparr>numElements := 3 * int k + r\<rparr>) = Inr ts
                  \<and> length ts = k)))"
proof (intro conjI impI)
  assume "numElements prim < 3"
  then show "prim_faces pc ixs prim = Inr []" by (rule prim_faces_short)
next
  assume a: "prim_type prim AND Strip pc = 0 \<and> prim_type prim AND Fan pc = 0 \<and> (r = 1 \<or> r = 2)"
  then have r: "0 \<le> r" "r \<le> 2" by auto
  show eq: "prim_faces pc ixs (prim\<lparr>numElements := 3 * int k + r\<rparr>)
          = prim_faces pc ixs (prim\<lparr>numElements := 3 * int k\<rparr>)"
    using a by (simp add: prim_faces_def py_range3_trailing [OF r])
  assume b: "0 \<le> firstElement prim \<and> firstElement prim + 3 * int k \<le> int (length ixs)"
  then obtain ts where "list_loop ixs (py_range (firstElement prim + 2) (firstElement prim + 3 * int k) 3) = Inr ts"
    "length ts = k"
    using list_loop_in_range [of "firstElement prim" k ixs] by blast
  then show "\<exists>ts. prim_faces pc ixs (prim\<lparr>numElements := 3 * int k + r\<rparr>) = Inr ts \<and> length ts = k"
    using a by (simp add: eq) (simp add: prim_faces_def)
qed

theorem short_and_trailing_elements_witness:
  "((2::int) < 3 \<and> prim_faces Primitive_dts [] \<lparr> prim_type = 2684354560, firstElement = 7, numElements = 2 \<rparr> = Inr [])
   \<and> (536870912 AND Strip Primitive_dts = 0 \<and> 536870912 AND Fan Primitive_dts = 0 \<and> (2::int) = 2
       \<and> (0::int) \<le> 1 \<and> 1 + 3 * int 1 \<le> int (length [10, 11, 12, 13 :: int])
       \<and> prim_faces Primitive_dts [10, 11, 12, 13] \<lparr> prim_type = 536870912, firstElement = 1, numElements = 5 \<rparr>
           = Inr [(13, 12, 11)])"
proof -
  let ?p = "\<lparr> prim_type = 2684354560, firstElement = 7, numElements = 2 \<rparr>"
  let ?q = "\<lparr> prim_type = 536870912, firstElement = 1, numElements = 0 \<rparr>"
  have 1: "prim_faces Primitive_dts [] ?p = Inr []"
    using short_and_trailing_elements [of ?p Primitive_dts "[]" 0 0] by simp
  have h: "prim_type ?q AND Strip Primitive_dts = 0 \<and> prim_type ?q AND Fan Primitive_dts = 0 \<and> ((2::int) = 1 \<or> (2::int) = 2)"
    by (simp add: Primitive_dts_def)
  have "prim_faces Primitive_dts [10, 11, 12, 13] (?q\<lparr>numElements := 3 * int 1 + 2\<rparr>)
      = prim_faces Primitive_dts [10, 11, 12, 13] (?q\<lparr>numElements := 3 * int 1\<rparr>)"
    using short_and_trailing_elements [of ?q Primitive_dts "[10, 11, 12, 13]" 2 1] h by blast
  moreover have "prim_faces Primitive_dts [10, 11, 12, 13] \<lparr> prim_type = 536870912, firstElement = 1, numElements = 3 \<rparr>
      = Inr [(13, 12, 11)]"
    by code_simp
  ultimately have 2: "prim_faces Primitive_dts [10, 11, 12, 13] \<lparr> prim_type = 536870912, firstElement = 1, numElements = 5 \<rparr>
      = Inr [(13, 12, 11)]"
    by simp
  show ?thesis using 1 2 by (simp add: Primitive_dts_def)
qed

section \<open>Mesh assembly\<close>

lemma py_slot_error: "py_slot n i = Inl e \<Longrightarrow> e = IndexError"
  by (auto simp: py_slot_def split: if_splits)

lemma py_index_error: "py_index xs i = Inl e \<Longrightarrow> e = IndexError"
  by (auto simp: py_index_def and_then_eq_Inl dest: py_slot_error)

lemma tri_at_error: "tri_at ixs a b c = Inl e \<Longrightarrow> e = IndexError"
  by (auto simp: tri_at_def and_then_eq_Inl dest: py_index_error)

lemma strip_loop_error: "strip_loop ixs ev is = Inl e \<Longrightarrow> e = IndexError"
  by (induction "is" arbitrary: ev)
     (auto simp: and_then_eq_Inl dest: tri_at_error split: if_splits)

lemma fan_loop_error: "fan_loop ixs ev is = Inl e \<Longrightarrow> e = IndexError"
  by (induction "is" arbitrary: ev)
     (auto simp: and_then_eq_Inl dest: tri_at_error split: if_splits)

lemma list_loop_error: "list_loop ixs is = Inl e \<Longrightarrow> e = IndexError"
  by (induction "is") (auto simp: and_then_eq_Inl dest: tri_at_error)

lemma prim_faces_error: "prim_faces pc ixs prim = Inl e \<Longrightarrow> e = IndexError"
  by (auto simp: prim_faces_def dest: strip_loop_error fan_loop_error list_loop_error
      split: if_splits)

lemma prim_material_error:
  "prim_material pc shape materials st prim = Inl e \<Longrightarrow> e = IndexError \<or> e = KeyError"
  by (auto simp: prim_material_def and_then_eq_Inl dest: py_slot_error
      split: if_splits option.splits)

lemma corner_error: "corner tvs i = Inl e \<Longrightarrow> e = IndexError"
  by (auto simp: corner_def and_then_eq_Inl dest: py_index_error)

lemma mesh_polys_error: "mesh_polys tvs mi i faces = Inl e \<Longrightarrow> e = IndexError \<or> e = KeyError"
  by (induction tvs mi i faces rule: mesh_polys.induct)
     (auto simp: and_then_eq_Inl dest: corner_error split: option.splits)

lemma mesh_faces_not_indexed:
  "prim_type prim AND Indexed pc = 0 \<Longrightarrow>
   mesh_faces pc shape materials ixs st (prim # rest) = Inl AssertionError"
  by simp

lemma mesh_faces_append:
  "mesh_faces pc shape materials ixs st (pre @ post)
     = and_then (mesh_faces pc shape materials ixs st pre)
         (\<lambda>st'. mesh_faces pc shape materials ixs st' post)"
proof (induction pre arbitrary: st)
  case Nil
  show ?case by simp
next
  case (Cons p pre)
  show ?case
    by (cases "prim_material pc shape materials (snd st) p"; cases "prim_faces pc ixs p")
       (auto simp: Cons.IH split: prod.splits)
qed

lemma mesh_faces_some_not_indexed:
  "\<exists>p\<in>set ps. prim_type p AND Indexed pc = 0 \<Longrightarrow>
   \<exists>e. mesh_faces pc shape materials ixs st ps = Inl e"
proof (induction ps arbitrary: st)
  case Nil
  then show ?case by simp
next
  case (Cons p ps)
  show ?case
  proof (cases "prim_type p AND Indexed pc = 0")
    case True
    then show ?thesis by simp
  next
    case False
    with Cons.prems have rest: "\<exists>p\<in>set ps. prim_type p AND Indexed pc = 0" by auto
    show ?thesis
      using False Cons.IH [OF rest]
      by (cases "prim_material pc shape materials (snd st) p"; cases "prim_faces pc ixs p")
         (auto split: prod.splits)
  qed
qed

lemma mesh_faces_all_indexed:
  "\<forall>p\<in>set ps. prim_type p AND Indexed pc \<noteq> 0 \<Longrightarrow>
   mesh_faces pc shape materials ixs st ps \<noteq> Inl AssertionError"
proof (induction ps arbitrary: st)
  case Nil
  show ?case by simp
next
  case (Cons p ps)
  then have ih: "\<And>st'. mesh_faces pc shape materials ixs st' ps \<noteq> Inl AssertionError"
    and p: "prim_type p AND Indexed pc \<noteq> 0"
    by auto
  show ?case
    using p ih
    by (auto simp: and_then_eq_Inl dest: prim_material_error prim_faces_error split: prod.splits)
qed

text \<open>
  C7. The source has no error classes of its own: the failure of a primitive without the
  Indexed bit is the AssertionError of line 118, which nothing catches, so the import
  aborts. A mesh holding such a primitive is never assembled; the failure is that
  AssertionError whenever the primitives before it were decoded without a failure of
  their own; and a mesh all of whose primitives have the Indexed bit never fails with it.
\<close>

theorem non_indexed_primitive_aborts:
  "((\<exists>p\<in>set (primitives dmesh). prim_type p AND Indexed pc = 0) \<longrightarrow>
      (\<exists>e. create_bmesh pc shape materials dmesh = Inl e))
   \<and> (primitives dmesh = pre @ p # post \<and> prim_type p AND Indexed pc = 0
       \<and> mesh_faces pc shape materials (indices dmesh) ([], Map.empty, []) pre = Inr st \<longrightarrow>
         create_bmesh pc shape materials dmesh = Inl AssertionError)
   \<and> ((\<forall>p\<in>set (primitives dmesh). prim_type p AND Indexed pc \<noteq> 0) \<longrightarrow>
         create_bmesh pc shape materials dmesh \<noteq> Inl AssertionError)"
proof (intro conjI impI)
  assume "\<exists>p\<in>set (primitives dmesh). prim_type p AND Indexed pc = 0"
  from mesh_faces_some_not_indexed [OF this]
  obtain e where "mesh_faces pc shape materials (indices dmesh) ([], Map.empty, []) (primitives dmesh) = Inl e"
    by blast
  then show "\<exists>e. create_bmesh pc shape materials dmesh = Inl e"
    by (simp add: create_bmesh_def)
next
  assume "primitives dmesh = pre @ p # post \<and> prim_type p AND Indexed pc = 0
       \<and> mesh_faces pc shape materials (indices dmesh) ([], Map.empty, []) pre = Inr st"
  then show "create_bmesh pc shape materials dmesh = Inl AssertionError"
    by (simp add: create_bmesh_def mesh_faces_append)
next
  assume "\<forall>p\<in>set (primitives dmesh). prim_type p AND Indexed pc \<noteq> 0"
  from mesh_faces_all_indexed [OF this]
  have "mesh_faces pc shape materials (indices dmesh) ([], Map.empty, []) (primitives dmesh) \<noteq> Inl AssertionError" .
  then show "create_bmesh pc shape materials dmesh \<noteq> Inl AssertionError"
    by (auto simp: create_bmesh_def and_then_eq_Inl dest: mesh_polys_error split: prod.splits)
qed

lemma prim_faces_tri: "prim_faces Primitive_dts [0, 1, 2] prim_tri = Inr [(2, 1, 0)]"
  unfolding prim_tri_def by code_simp

lemma mesh_faces_tri:
  "mesh_faces Primitive_dts shape materials [0, 1, 2] ([], Map.empty, []) [prim_tri]
     = Inr ([((2, 1, 0), None)], Map.empty, [])"
  by (simp add: prim_faces_tri prim_material_def) (simp add: prim_tri_def Primitive_dts_def)

lemma mesh_demo_fields:
  "indices mesh_demo = [0, 1, 2]" "primitives mesh_demo = [prim_tri]"
  "tverts mesh_demo = [(0, 0), (1, 0), (1 / 4, 3 / 4)]"
  "verts mesh_demo = [(0, 0, 0), (1, 0, 0), (0, 1, 0)]"
  "normals mesh_demo = [(0, 0, 1), (0, 0, 1), (0, 0, 1)]"
  by (simp_all add: mesh_demo_def)

lemma create_bmesh_demo:
  "create_bmesh Primitive_dts shape materials mesh_demo
     = Inr \<lparr> me_materials = [],
             me_vertices_co = [(0, 0, 0), (1, 0, 0), (0, 1, 0)],
             me_vertices_normal = [(0, 0, 1), (0, 0, 1), (0, 0, 1)],
             me_polygons = [\<lparr> loop_start = 0, loop_total = 3, material_index = 0 \<rparr>],
             me_loops_vertex_index = [2, 1, 0],
             me_uv = [(1 / 4, 1 / 4), (1, 1), (0, 1)] \<rparr>"
  by (simp add: create_bmesh_def mesh_demo_fields mesh_faces_tri corner_def py_index_def py_slot_def
      del: mesh_faces.simps)

theorem non_indexed_primitive_aborts_witness:
  "(\<exists>p\<in>set (primitives mesh_unindexed). prim_type p AND Indexed Primitive_dts = 0)
   \<and> create_bmesh Primitive_dts shape_demo Map.empty mesh_unindexed = Inl AssertionError
   \<and> primitives mesh_demo = [prim_tri] \<and> prim_type prim_tri AND Indexed Primitive_dts \<noteq> 0
   \<and> (\<exists>me. create_bmesh Primitive_dts shape_demo Map.empty mesh_demo = Inr me)
   \<and> create_bmesh Primitive_dts shape_demo Map.empty mesh_demo \<noteq> Inl AssertionError"
proof -
  have bad: "prim_type prim_unindexed AND Indexed Primitive_dts = 0"
    by (simp add: prim_unindexed_def Primitive_dts_def)
  have ex: "\<exists>p\<in>set (primitives mesh_unindexed). prim_type p AND Indexed Primitive_dts = 0"
    using bad by (simp add: mesh_unindexed_def)
  have pre: "primitives mesh_unindexed = [prim_tri] @ prim_unindexed # []"
    "mesh_faces Primitive_dts shape_demo Map.empty (indices mesh_unindexed) ([], Map.empty, []) [prim_tri]
       = Inr ([((2, 1, 0), None)], Map.empty, [])"
    by (simp_all add: mesh_unindexed_def mesh_demo_fields mesh_faces_tri del: mesh_faces.simps)
  have good: "\<forall>p\<in>set (primitives mesh_demo). prim_type p AND Indexed Primitive_dts \<noteq> 0"
    by (simp add: mesh_demo_fields prim_tri_def Primitive_dts_def)
  note t = non_indexed_primitive_aborts
  have 1: "\<exists>e. create_bmesh Primitive_dts shape_demo Map.empty mesh_unindexed = Inl e"
    using t [of mesh_unindexed Primitive_dts shape_demo Map.empty] ex by blast
  have 2: "create_bmesh Primitive_dts shape_demo Map.empty mesh_unindexed = Inl AssertionError"
    using t [of mesh_unindexed Primitive_dts shape_demo Map.empty "[prim_tri]" prim_unindexed "[]"]
      pre bad by blast
  have 3: "create_bmesh Primitive_dts shape_demo Map.empty mesh_demo \<noteq> Inl AssertionError"
    using t [of mesh_demo Primitive_dts shape_demo Map.empty] good by blast
  show ?thesis using ex 1 2 3 good by (simp add: create_bmesh_demo mesh_demo_fields)
qed

lemma corner_Inr:
  "corner tvs index = Inr c \<longleftrightarrow>
     (\<exists>u v. py_index tvs index = Inr (u, v) \<and> c = (index, (u, 1 - v)))"
  by (auto simp: corner_def and_then_eq_Inr)

lemma nth_of_three: "j < 3 \<Longrightarrow> [x, y, z] ! j = (if j = 0 then x else if j = 1 then y else z)"
  by (cases j) (auto simp: less_Suc_eq numeral_3_eq_3)

lemma mesh_polys_Inr:
  "mesh_polys tvs mi i faces = Inr ps \<Longrightarrow>
   length ps = length faces \<and>
   (\<forall>n<length faces.
      loop_start (fst (ps ! n)) = (i + n) * 3 \<and> loop_total (fst (ps ! n)) = 3 \<and>
      length (snd (ps ! n)) = 3 \<and>
      (\<forall>j<3. corner tvs (tri_list (fst (faces ! n)) ! j) = Inr (snd (ps ! n) ! j)))"
proof (induction tvs mi i faces arbitrary: ps rule: mesh_polys.induct)
  case (1 tvs mi i)
  then show ?case by simp
next
  case (2 tvs mi i a b c dmat rest)
  from "2.prems" obtain m ca cb cc qs where
    m: "(case dmat of None \<Rightarrow> Inr 0
         | Some d \<Rightarrow> (case mi d of None \<Rightarrow> Inl KeyError | Some m \<Rightarrow> Inr m)) = Inr m"
    and c: "corner tvs a = Inr ca" "corner tvs b = Inr cb" "corner tvs c = Inr cc"
    and qs: "mesh_polys tvs mi (Suc i) rest = Inr qs"
    and ps: "ps = (\<lparr> loop_start = i * 3, loop_total = 3, material_index = m \<rparr>, [ca, cb, cc]) # qs"
    by (auto simp: and_then_eq_Inr)
  from "2.IH" [OF qs] have ih: "length qs = length rest"
    "\<forall>n<length rest.
      loop_start (fst (qs ! n)) = (Suc i + n) * 3 \<and> loop_total (fst (qs ! n)) = 3 \<and>
      length (snd (qs ! n)) = 3 \<and>
      (\<forall>j<3. corner tvs (tri_list (fst (rest ! n)) ! j) = Inr (snd (qs ! n) ! j))"
    by simp_all
  have "loop_start (fst (ps ! n)) = (i + n) * 3 \<and> loop_total (fst (ps ! n)) = 3 \<and>
        length (snd (ps ! n)) = 3 \<and>
        (\<forall>j<3. corner tvs (tri_list (fst ((((a, b, c), dmat) # rest) ! n)) ! j) = Inr (snd (ps ! n) ! j))"
    if "n < length (((a, b, c), dmat) # rest)" for n
  proof (cases n)
    case 0
    then show ?thesis using c by (simp add: ps tri_list_def nth_of_three)
  next
    case (Suc n')
    with that have "n' < length rest" by simp
    with ih(2) Suc show ?thesis by (simp add: ps)
  qed
  with ih(1) show ?case by (simp add: ps)
qed

lemma concat_nth_three:
  "\<forall>xs\<in>set xss. length xs = 3 \<Longrightarrow> n < length xss \<Longrightarrow> j < 3 \<Longrightarrow>
   concat xss ! (3 * n + j) = xss ! n ! j"
proof (induction xss arbitrary: n)
  case Nil
  then show ?case by simp
next
  case (Cons xs xss)
  show ?case
  proof (cases n)
    case 0
    with Cons.prems show ?thesis by (simp add: nth_append)
  next
    case (Suc n')
    with Cons.prems have "concat xss ! (3 * n' + j) = xss ! n' ! j"
      by (intro Cons.IH) simp_all
    moreover have "3 * n + j = length xs + (3 * n' + j)" using Suc Cons.prems by simp
    ultimately show ?thesis using Suc by (simp only: concat.simps nth_append_length_plus nth_Cons_Suc)
  qed
qed

lemma concat_length_three:
  "\<forall>xs\<in>set xss. length xs = 3 \<Longrightarrow> length (concat xss) = 3 * length xss"
  by (induction xss) simp_all

text \<open>
  C6. When a mesh is assembled, triangle \<open>n\<close> of \<open>faces\<close> owns the loops \<open>3 n + j\<close>,
  \<open>j < 3\<close>; the loop holds the triangle's \<open>j\<close>-th vertex index, and its UV is \<open>(u, 1 - v)\<close>
  for the texture vertex \<open>(u, v)\<close> that \<open>tverts\<close> holds at that vertex index. The texel
  \<open>(0.25, 0.75)\<close> becomes \<open>(0.25, 0.25)\<close>. Coordinates are real numbers here.
\<close>

theorem uv_is_flipped_texel:
  assumes "create_bmesh pc shape materials dmesh = Inr me"
  shows "(\<exists>faces mi mm.
            mesh_faces pc shape materials (indices dmesh) ([], Map.empty, []) (primitives dmesh)
              = Inr (faces, mi, mm)
            \<and> length (me_polygons me) = length faces
            \<and> length (me_loops_vertex_index me) = 3 * length faces
            \<and> length (me_uv me) = 3 * length faces
            \<and> (\<forall>n<length faces. \<forall>j<3.
                  loop_start (me_polygons me ! n) = 3 * n
                  \<and> me_loops_vertex_index me ! (3 * n + j) = tri_list (fst (faces ! n)) ! j
                  \<and> (\<exists>u v. py_index (tverts dmesh) (tri_list (fst (faces ! n)) ! j) = Inr (u, v)
                           \<and> me_uv me ! (3 * n + j) = (u, 1 - v))))
         \<and> corner [(1 / 4, 3 / 4)] 0 = Inr (0, (1 / 4, 1 / 4))"
proof
  from assms obtain faces mi mm ps where
    mf: "mesh_faces pc shape materials (indices dmesh) ([], Map.empty, []) (primitives dmesh)
           = Inr (faces, mi, mm)"
    and mp: "mesh_polys (tverts dmesh) mi 0 faces = Inr ps"
    and me: "me = \<lparr> me_materials = mm, me_vertices_co = verts dmesh,
                    me_vertices_normal = normals dmesh, me_polygons = map fst ps,
                    me_loops_vertex_index = map fst (concat (map snd ps)),
                    me_uv = map snd (concat (map snd ps)) \<rparr>"
    by (auto simp: create_bmesh_def and_then_eq_Inr)
  from mesh_polys_Inr [OF mp] have len: "length ps = length faces"
    and each: "\<And>n. n < length faces \<Longrightarrow>
      loop_start (fst (ps ! n)) = n * 3 \<and> length (snd (ps ! n)) = 3 \<and>
      (\<forall>j<3. corner (tverts dmesh) (tri_list (fst (faces ! n)) ! j) = Inr (snd (ps ! n) ! j))"
    by simp_all
  have three: "\<forall>xs\<in>set (map snd ps). length xs = 3"
  proof
    fix xs
    assume "xs \<in> set (map snd ps)"
    then obtain n where "n < length ps" "xs = snd (ps ! n)"
      by (auto simp: in_set_conv_nth)
    with each [of n] len show "length xs = 3" by simp
  qed
  have clen: "length (concat (map snd ps)) = 3 * length faces"
    using concat_length_three [OF three] len by simp
  have pt: "loop_start (me_polygons me ! n) = 3 * n
      \<and> me_loops_vertex_index me ! (3 * n + j) = tri_list (fst (faces ! n)) ! j
      \<and> (\<exists>u v. py_index (tverts dmesh) (tri_list (fst (faces ! n)) ! j) = Inr (u, v)
               \<and> me_uv me ! (3 * n + j) = (u, 1 - v))"
    if n: "n < length faces" and j: "j < 3" for n j
  proof -
    from each [OF n] j have
      ls: "loop_start (fst (ps ! n)) = n * 3"
      and co: "corner (tverts dmesh) (tri_list (fst (faces ! n)) ! j) = Inr (snd (ps ! n) ! j)"
      by simp_all
    from co obtain u v where
      uv: "py_index (tverts dmesh) (tri_list (fst (faces ! n)) ! j) = Inr (u, v)"
      and c: "snd (ps ! n) ! j = (tri_list (fst (faces ! n)) ! j, (u, 1 - v))"
      by (auto simp: corner_Inr)
    have "concat (map snd ps) ! (3 * n + j) = map snd ps ! n ! j"
      using three n j len by (intro concat_nth_three) simp_all
    then have at: "concat (map snd ps) ! (3 * n + j) = (tri_list (fst (faces ! n)) ! j, (u, 1 - v))"
      using c n len by simp
    have lt: "3 * n + j < length (concat (map snd ps))"
      using clen n j by simp
    show ?thesis
      using ls uv at lt n len by (auto simp: me)
  qed
  show "\<exists>faces mi mm.
            mesh_faces pc shape materials (indices dmesh) ([], Map.empty, []) (primitives dmesh)
              = Inr (faces, mi, mm)
            \<and> length (me_polygons me) = length faces
            \<and> length (me_loops_vertex_index me) = 3 * length faces
            \<and> length (me_uv me) = 3 * length faces
            \<and> (\<forall>n<length faces. \<forall>j<3.
                  loop_start (me_polygons me ! n) = 3 * n
                  \<and> me_loops_vertex_index me ! (3 * n + j) = tri_list (fst (faces ! n)) ! j
                  \<and> (\<exists>u v. py_index (tverts dmesh) (tri_list (fst (faces ! n)) ! j) = Inr (u, v)
                           \<and> me_uv me ! (3 * n + j) = (u, 1 - v)))"
    using mf len clen pt by (intro exI [of _ faces] exI [of _ mi] exI [of _ mm]) (simp add: me)
next
  show "corner [(1 / 4, 3 / 4)] 0 = Inr (0, (1 / 4, 1 / 4))"
    by (simp add: corner_def py_index_def py_slot_def)
qed

theorem uv_is_flipped_texel_witness:
  "\<exists>me. create_bmesh Primitive_dts shape_demo Map.empty mesh_demo = Inr me
        \<and> me_loops_vertex_index me ! 0 = 2 \<and> me_uv me ! 0 = (1 / 4, 1 / 4)"
proof -
  obtain me where me: "create_bmesh Primitive_dts shape_demo Map.empty mesh_demo = Inr me"
    using create_bmesh_demo by blast
  from uv_is_flipped_texel [OF me] obtain faces mi mm where
    mf: "mesh_faces Primitive_dts shape_demo Map.empty (indices mesh_demo) ([], Map.empty, [])
           (primitives mesh_demo) = Inr (faces, mi, mm)"
    and pt: "\<forall>n<length faces. \<forall>j<3.
               loop_start (me_polygons me ! n) = 3 * n
               \<and> me_loops_vertex_index me ! (3 * n + j) = tri_list (fst (faces ! n)) ! j
               \<and> (\<exists>u v. py_index (tverts mesh_demo) (tri_list (fst (faces ! n)) ! j) = Inr (u, v)
                        \<and> me_uv me ! (3 * n + j) = (u, 1 - v))"
    by blast
  from mf have faces: "faces = [((2, 1, 0), None)]"
    by (simp add: mesh_demo_fields mesh_faces_tri del: mesh_faces.simps)
  have tv: "py_index (tverts mesh_demo) 2 = Inr (1 / 4, 3 / 4)"
    by (simp add: mesh_demo_fields py_index_def py_slot_def)
  from pt [rule_format, of 0 0] have
    "me_loops_vertex_index me ! 0 = 2
     \<and> (\<exists>u v. py_index (tverts mesh_demo) 2 = Inr (u, v) \<and> me_uv me ! 0 = (u, 1 - v))"
    by (simp add: faces tri_list_def)
  with tv have "me_loops_vertex_index me ! 0 = 2 \<and> me_uv me ! 0 = (1 / 4, 1 / 4)"
    by auto
  with me show ?thesis by blast
qed

section \<open>The demonstration shape\<close>

lemma import_materials_demo:
  "\<exists>b1 b2. import_materials Material_dts host_plain 0 (sh_materials shape_demo) = Inr [b1, b2]
     \<and> bm_props b2 ''ifl'' = Some (PBool True) \<and> bm_props b1 ''ifl'' = None"
  by (simp add: shape_demo_def import_material_def bind_texture_def host_plain_def
      default_materials_def flag_props_def blend_mode_def Material_dts_def set_when_def
      set_prop_def materials_new_def)

lemma node_order_demo: "\<exists>s. node_order shape_demo = Inr s"
  by (simp add: node_order_def shape_demo_def py_index_def py_slot_def)

lemma build_nodes_demo:
  "\<exists>a b. build_nodes shape_demo ''EMPTY'' = Inr [a, b]"
  by (simp add: build_nodes_def shape_demo_def py_index_def py_slot_def)

lemma lod_by_mesh_demo:
  "lod_by_mesh Map.empty (sh_detail_levels shape_demo) = [0 \<mapsto> \<lparr> lod_name = 3, objectDetail = 0 \<rparr>]"
  by (simp add: shape_demo_def)

lemma object_loop_demo:
  "length node_obs = 2 \<Longrightarrow>
   \<exists>ob. object_loop Primitive_dts shape_demo bs [0 \<mapsto> \<lparr> lod_name = 3, objectDetail = 0 \<rparr>] node_obs False
     \<lparr> sc_objects = [], sc_groups = Map.empty \<rparr> (sh_objects shape_demo)
     = Inr \<lparr> sc_objects = [ob], sc_groups = [''detail32'' \<mapsto> [0]] \<rparr>"
proof -
  assume n: "length node_obs = 2"
  have objs: "sh_objects shape_demo = [\<lparr> obj_name = 2, obj_node = 0, firstMesh = 0, numMeshes = 1 \<rparr>]"
    and meshes: "sh_meshes shape_demo = [mesh_demo]"
    and names: "sh_names shape_demo = [''root'', ''arm'', ''body'', ''detail32'', ''flame'']"
    by (simp_all add: shape_demo_def)
  have rng: "py_range 0 1 1 = [0]"
    by (simp add: py_range_step py_range_empty)
  have ty: "mesh_type mesh_demo = Standard" by (simp add: mesh_demo_def)
  show ?thesis
    by (simp add: objs rng place_mesh_def meshes names py_index_def py_slot_def ty n
        create_bmesh_demo group_link_def)
qed

section \<open>The node hierarchy\<close>

lemma node_loop_Inr:
  "node_loop shape i node_obs ns = Inr obs' \<Longrightarrow>
   \<exists>new. obs' = node_obs @ new \<and> length new = length ns \<and>
     (\<forall>k<length ns. \<exists>q. py_index (sh_default_rotations shape) (int (i + k)) = Inr q
        \<and> ob_rotation_quaternion (new ! k) = Some (- qw q, qx q, qy q, qz q))"
proof (induction ns arbitrary: i node_obs)
  case Nil
  then show ?case by simp
next
  case (Cons node ns)
  from Cons.prems obtain nm par loc q where
    q: "py_index (sh_default_rotations shape) (int i) = Inr q"
    and rest: "node_loop shape (Suc i)
         (node_obs @ [\<lparr> ob_name = nm, ob_data = None, ob_parent = par, ob_location = Some loc,
                        ob_rotation_quaternion = Some (- qw q, qx q, qy q, qz q),
                        ob_hide = False \<rparr>]) ns = Inr obs'"
    by (auto simp: and_then_eq_Inr)
  let ?ob = "\<lparr> ob_name = nm, ob_data = None, ob_parent = par, ob_location = Some loc,
               ob_rotation_quaternion = Some (- qw q, qx q, qy q, qz q), ob_hide = False \<rparr>"
  from Cons.IH [OF rest] obtain new where
    new: "obs' = (node_obs @ [?ob]) @ new" "length new = length ns"
      "\<forall>k<length ns. \<exists>q. py_index (sh_default_rotations shape) (int (Suc i + k)) = Inr q
        \<and> ob_rotation_quaternion (new ! k) = Some (- qw q, qx q, qy q, qz q)"
    by blast
  have "\<exists>q. py_index (sh_default_rotations shape) (int (i + k)) = Inr q
        \<and> ob_rotation_quaternion ((?ob # new) ! k) = Some (- qw q, qx q, qy q, qz q)"
    if "k < length (node # ns)" for k
  proof (cases k)
    case 0
    with q show ?thesis by simp
  next
    case (Suc k')
    with that new(3) show ?thesis by simp
  qed
  with new(1,2) show ?case by (intro exI [of _ "?ob # new"]) simp
qed

lemma py_index_nat_Inr: "py_index xs (int k) = Inr x \<Longrightarrow> k < length xs \<and> x = xs ! k"
  by (auto simp: py_index_def py_slot_def and_then_eq_Inr split: if_splits)

lemma build_nodes_Inr:
  assumes "build_nodes shape node_mode = Inr node_obs"
  shows "(node_mode = ''EMPTY'' \<longrightarrow> length node_obs = length (sh_nodes shape))
    \<and> (\<forall>i<length node_obs. i < length (sh_default_rotations shape)
          \<and> ob_rotation_quaternion (node_obs ! i)
              = Some (- qw (sh_default_rotations shape ! i), qx (sh_default_rotations shape ! i),
                      qy (sh_default_rotations shape ! i), qz (sh_default_rotations shape ! i)))"
proof (cases "node_mode = ''EMPTY''")
  case True
  with assms have "node_loop shape 0 [] (sh_nodes shape) = Inr node_obs"
    by (simp add: build_nodes_def)
  from node_loop_Inr [OF this] have len: "length node_obs = length (sh_nodes shape)"
    and rot: "\<forall>k<length (sh_nodes shape). \<exists>q. py_index (sh_default_rotations shape) (int k) = Inr q
        \<and> ob_rotation_quaternion (node_obs ! k) = Some (- qw q, qx q, qy q, qz q)"
    by auto
  show ?thesis using len rot by (auto dest!: py_index_nat_Inr)
next
  case False
  with assms show ?thesis by (simp add: build_nodes_def)
qed

lemma load_Inr:
  "load mc pc h groups0 shape node_mode hide = Inr ld \<Longrightarrow>
   \<exists>bs0. import_materials mc h 0 (sh_materials shape) = Inr bs0
     \<and> ifl_loop shape bs0 (sh_iflmaterials shape) = Inr (ld_materials ld)
     \<and> node_order shape = Inr (ld_node_order ld)
     \<and> build_nodes shape node_mode = Inr (ld_node_obs ld)
     \<and> object_loop pc shape (ld_materials ld) (lod_by_mesh Map.empty (sh_detail_levels shape))
          (ld_node_obs ld) hide \<lparr> sc_objects = [], sc_groups = groups0 \<rparr> (sh_objects shape)
        = Inr (ld_scene ld)"
  by (auto simp: load_def and_then_eq_Inr)

text \<open>
  C5. When the import succeeds, every node object it built (one per node, in order, in
  mode \<open>"EMPTY"\<close>; none in the other modes) stores the rotation \<open>(-w, x, y, z)\<close> of the
  default rotation \<open>(x, y, z, w)\<close> the shape holds at the node's index.
\<close>

theorem node_rotation_converted:
  assumes "load mc pc h groups0 shape node_mode hide = Inr ld"
  shows "(node_mode = ''EMPTY'' \<longrightarrow> length (ld_node_obs ld) = length (sh_nodes shape))
    \<and> (\<forall>i<length (ld_node_obs ld). i < length (sh_default_rotations shape)
          \<and> ob_rotation_quaternion (ld_node_obs ld ! i)
              = Some (- qw (sh_default_rotations shape ! i), qx (sh_default_rotations shape ! i),
                      qy (sh_default_rotations shape ! i), qz (sh_default_rotations shape ! i)))"
proof -
  from load_Inr [OF assms] have "build_nodes shape node_mode = Inr (ld_node_obs ld)"
    by blast
  then show ?thesis by (rule build_nodes_Inr)
qed

lemma ifl_loop_demo:
  "bm_props b2 ''ifl'' = Some (PBool True) \<Longrightarrow>
   \<exists>b2'. ifl_loop shape_demo [b1, b2] (sh_iflmaterials shape_demo) = Inr [b1, b2']"
  by (simp add: shape_demo_def ifl_step_def py_slot_def py_index_def materials_of_def ifl_props_def)

lemma load_demo:
  "\<exists>ld. load Material_dts Primitive_dts host_plain Map.empty shape_demo ''EMPTY'' False = Inr ld
     \<and> sc_groups (ld_scene ld) = [''detail32'' \<mapsto> [0]] \<and> length (sc_objects (ld_scene ld)) = 1"
proof -
  obtain b1 b2 where m: "import_materials Material_dts host_plain 0 (sh_materials shape_demo) = Inr [b1, b2]"
    "bm_props b2 ''ifl'' = Some (PBool True)"
    using import_materials_demo by blast
  obtain b2' where i: "ifl_loop shape_demo [b1, b2] (sh_iflmaterials shape_demo) = Inr [b1, b2']"
    using ifl_loop_demo [OF m(2)] by blast
  obtain s where s: "node_order shape_demo = Inr s" using node_order_demo by blast
  obtain a b where n: "build_nodes shape_demo ''EMPTY'' = Inr [a, b]" using build_nodes_demo by blast
  obtain ob where o: "object_loop Primitive_dts shape_demo [b1, b2'] [0 \<mapsto> \<lparr> lod_name = 3, objectDetail = 0 \<rparr>] [a, b] False
     \<lparr> sc_objects = [], sc_groups = Map.empty \<rparr> (sh_objects shape_demo)
     = Inr \<lparr> sc_objects = [ob], sc_groups = [''detail32'' \<mapsto> [0]] \<rparr>"
    using object_loop_demo [of "[a, b]" "[b1, b2']"] by auto
  show ?thesis
    by (simp add: load_def m(1) i s n lod_by_mesh_demo o)
qed

theorem node_rotation_converted_witness:
  "\<exists>ld. load Material_dts Primitive_dts host_plain Map.empty shape_demo ''EMPTY'' False = Inr ld
     \<and> length (ld_node_obs ld) = 2
     \<and> ob_rotation_quaternion (ld_node_obs ld ! 1) = Some (- (1 / 2), 1 / 2, 1 / 2, 1 / 2)"
proof -
  obtain ld where ld: "load Material_dts Primitive_dts host_plain Map.empty shape_demo ''EMPTY'' False = Inr ld"
    using load_demo by blast
  have rots: "sh_default_rotations shape_demo ! Suc 0 = \<lparr> qx = 1 / 2, qy = 1 / 2, qz = 1 / 2, qw = 1 / 2 \<rparr>"
    and nodes: "length (sh_nodes shape_demo) = 2"
    by (simp_all add: shape_demo_def)
  from node_rotation_converted [OF ld] have
    "length (ld_node_obs ld) = 2
     \<and> ob_rotation_quaternion (ld_node_obs ld ! 1) = Some (- (1 / 2), 1 / 2, 1 / 2, 1 / 2)"
    by (simp add: rots nodes)
  with ld show ?thesis by blast
qed

text \<open>
  The node loop does succeed on a well-formed node table: names that exist, every parent
  absent or an earlier node, and default transforms for every node.
\<close>

lemma node_loop_total:
  assumes "\<forall>k<length ns. (\<exists>s. py_index (sh_names shape) (node_name (ns ! k)) = Inr s)
              \<and> (node_parent (ns ! k) = - 1
                  \<or> 0 \<le> node_parent (ns ! k) \<and> node_parent (ns ! k) < int (length node_obs + k))"
    and "i + length ns \<le> length (sh_default_translations shape)"
    and "i + length ns \<le> length (sh_default_rotations shape)"
  shows "\<exists>obs'. node_loop shape i node_obs ns = Inr obs'"
  using assms
proof (induction ns arbitrary: i node_obs)
  case Nil
  show ?case by simp
next
  case (Cons node ns)
  from Cons.prems(1) [rule_format, of 0] obtain nm where
    nm: "py_index (sh_names shape) (node_name node) = Inr nm"
    and par: "node_parent node = - 1
                \<or> 0 \<le> node_parent node \<and> node_parent node < int (length node_obs)"
    by auto
  from par obtain p where p: "(if node_parent node \<noteq> - 1
               then and_then (py_slot (length node_obs) (node_parent node)) (\<lambda>p. Inr (Some p))
               else Inr None) = Inr p"
    by (auto simp: py_slot_def)
  from Cons.prems(2,3) have
    loc: "py_index (sh_default_translations shape) (int i) = Inr (sh_default_translations shape ! i)"
    and rot: "py_index (sh_default_rotations shape) (int i) = Inr (sh_default_rotations shape ! i)"
    by (simp_all add: py_index_nat)
  let ?obs = "node_obs @ [\<lparr> ob_name = nm, ob_data = None, ob_parent = p,
      ob_location = Some (sh_default_translations shape ! i),
      ob_rotation_quaternion = Some (- qw (sh_default_rotations shape ! i),
        qx (sh_default_rotations shape ! i), qy (sh_default_rotations shape ! i),
        qz (sh_default_rotations shape ! i)), ob_hide = False \<rparr>]"
  have tl: "\<forall>k<length ns. (\<exists>s. py_index (sh_names shape) (node_name (ns ! k)) = Inr s)
              \<and> (node_parent (ns ! k) = - 1
                  \<or> 0 \<le> node_parent (ns ! k) \<and> node_parent (ns ! k) < int (length ?obs + k))"
  proof (intro allI impI)
    fix k assume "k < length ns"
    with Cons.prems(1) [rule_format, of "Suc k"]
    show "(\<exists>s. py_index (sh_names shape) (node_name (ns ! k)) = Inr s)
              \<and> (node_parent (ns ! k) = - 1
                  \<or> 0 \<le> node_parent (ns ! k) \<and> node_parent (ns ! k) < int (length ?obs + k))"
      by simp
  qed
  from Cons.prems(2,3) have "Suc i + length ns \<le> length (sh_default_translations shape)"
    "Suc i + length ns \<le> length (sh_default_rotations shape)"
    by simp_all
  from Cons.IH [OF tl this] obtain obs' where "node_loop shape (Suc i) ?obs ns = Inr obs'"
    by blast
  then show ?case by (simp add: nm p loc rot)
qed

lemma build_nodes_total:
  assumes "\<forall>k<length (sh_nodes shape).
             (\<exists>s. py_index (sh_names shape) (node_name (sh_nodes shape ! k)) = Inr s)
              \<and> (node_parent (sh_nodes shape ! k) = - 1
                  \<or> 0 \<le> node_parent (sh_nodes shape ! k) \<and> node_parent (sh_nodes shape ! k) < int k)"
    and "length (sh_nodes shape) \<le> length (sh_default_translations shape)"
    and "length (sh_nodes shape) \<le> length (sh_default_rotations shape)"
  shows "\<exists>node_obs. build_nodes shape node_mode = Inr node_obs"
proof (cases "node_mode = ''EMPTY''")
  case True
  from node_loop_total [of "sh_nodes shape" shape "[]" 0] assms
  show ?thesis by (simp add: build_nodes_def True)
next
  case False
  then show ?thesis by (simp add: build_nodes_def)
qed

section \<open>IFL attribute propagation\<close>

lemma ifl_step_Inr:
  "ifl_step shape bs ifl = Inr bs' \<longleftrightarrow>
     (\<exists>k n. py_slot (length (sh_materials shape)) (ifl_slot ifl) = Inr k \<and> k < length bs
        \<and> bm_props (bs ! k) ''ifl'' = Some (PBool True)
        \<and> py_index (sh_names shape) (ifl_name ifl) = Inr n
        \<and> bs' = bs[k := ifl_props n ifl (bs ! k)])"
  by (auto simp: ifl_step_def and_then_eq_Inr materials_of_def
      split: option.splits if_splits)

lemma ifl_props_ifl [simp]: "bm_props (ifl_props n ifl mat) ''ifl'' = bm_props mat ''ifl''"
  by (simp add: ifl_props_def set_prop_def)

lemma ifl_props_values:
  "bm_props (ifl_props n ifl mat) ''iflName'' = Some (PStr n)"
  "bm_props (ifl_props n ifl mat) ''iflFirstFrame'' = Some (PInt (firstFrame ifl))"
  "bm_props (ifl_props n ifl mat) ''iflNumFrames'' = Some (PInt (numFrames ifl))"
  "bm_props (ifl_props n ifl mat) ''iflTime'' = Some (PReal (ifl_time ifl))"
  by (simp_all add: ifl_props_def set_prop_def)

lemma ifl_step_keeps:
  assumes "ifl_step shape bs ifl = Inr bs'"
  shows "length bs' = length bs" and "bm_props (bs' ! j) ''ifl'' = bm_props (bs ! j) ''ifl''"
proof -
  from assms obtain k n where k: "k < length bs" and bs': "bs' = bs[k := ifl_props n ifl (bs ! k)]"
    by (auto simp: ifl_step_Inr)
  show "length bs' = length bs" by (simp add: bs')
  show "bm_props (bs' ! j) ''ifl'' = bm_props (bs ! j) ''ifl''"
    using k by (cases "j = k") (simp_all add: bs')
qed

lemma ifl_loop_keeps:
  "ifl_loop shape bs ifls = Inr bs' \<Longrightarrow>
   length bs' = length bs \<and> (\<forall>j. bm_props (bs' ! j) ''ifl'' = bm_props (bs ! j) ''ifl'')"
proof (induction ifls arbitrary: bs)
  case Nil
  then show ?case by simp
next
  case (Cons ifl ifls)
  from Cons.prems obtain bs1 where 1: "ifl_step shape bs ifl = Inr bs1"
    and 2: "ifl_loop shape bs1 ifls = Inr bs'"
    by (auto simp: and_then_eq_Inr)
  from Cons.IH [OF 2] ifl_step_keeps [OF 1] show ?case by simp
qed

lemma ifl_loop_append:
  "ifl_loop shape bs (pre @ post) = and_then (ifl_loop shape bs pre) (\<lambda>bs'. ifl_loop shape bs' post)"
  by (induction pre arbitrary: bs) (simp_all add: and_then_def split: sum.splits)

lemma ifl_step_no_flag:
  "py_slot (length (sh_materials shape)) (ifl_slot ifl) = Inr k \<Longrightarrow> k < length bs \<Longrightarrow>
   bm_props (bs ! k) ''ifl'' = None \<Longrightarrow> ifl_step shape bs ifl = Inl KeyError"
  by (simp add: ifl_step_def materials_of_def)

lemma ifl_loop_no_flag:
  assumes "\<exists>ifl\<in>set ifls. \<exists>k. py_slot (length (sh_materials shape)) (ifl_slot ifl) = Inr k
             \<and> k < length bs \<and> bm_props (bs ! k) ''ifl'' = None"
  shows "\<exists>e. ifl_loop shape bs ifls = Inl e"
  using assms
proof (induction ifls arbitrary: bs)
  case Nil
  then show ?case by simp
next
  case (Cons ifl ifls)
  show ?case
  proof (cases "ifl_step shape bs ifl")
    case (Inl e)
    then show ?thesis by simp
  next
    case (Inr bs1)
    note keep = ifl_step_keeps [OF Inr]
    from Inr have "\<not> (\<exists>k. py_slot (length (sh_materials shape)) (ifl_slot ifl) = Inr k
             \<and> k < length bs \<and> bm_props (bs ! k) ''ifl'' = None)"
      by (auto simp: ifl_step_Inr)
    with Cons.prems have "\<exists>ifl\<in>set ifls. \<exists>k. py_slot (length (sh_materials shape)) (ifl_slot ifl) = Inr k
             \<and> k < length bs1 \<and> bm_props (bs1 ! k) ''ifl'' = None"
      by (auto simp: keep)
    from Cons.IH [OF this] show ?thesis by (simp add: Inr)
  qed
qed

lemma ifl_loop_total:
  assumes "\<forall>ifl\<in>set ifls. \<exists>k n. py_slot (length (sh_materials shape)) (ifl_slot ifl) = Inr k
             \<and> k < length bs \<and> bm_props (bs ! k) ''ifl'' = Some (PBool True)
             \<and> py_index (sh_names shape) (ifl_name ifl) = Inr n"
  shows "\<exists>bs'. ifl_loop shape bs ifls = Inr bs'"
  using assms
proof (induction ifls arbitrary: bs)
  case Nil
  show ?case by simp
next
  case (Cons ifl ifls)
  from Cons.prems obtain bs1 where 1: "ifl_step shape bs ifl = Inr bs1"
    by (auto simp: ifl_step_Inr)
  note keep = ifl_step_keeps [OF 1]
  from Cons.prems have "\<forall>ifl\<in>set ifls. \<exists>k n. py_slot (length (sh_materials shape)) (ifl_slot ifl) = Inr k
             \<and> k < length bs1 \<and> bm_props (bs1 ! k) ''ifl'' = Some (PBool True)
             \<and> py_index (sh_names shape) (ifl_name ifl) = Inr n"
    by (simp add: keep)
  from Cons.IH [OF this] show ?case by (simp add: 1)
qed

lemma ifl_loop_untouched:
  "ifl_loop shape bs ifls = Inr bs' \<Longrightarrow>
   \<forall>ifl\<in>set ifls. py_slot (length (sh_materials shape)) (ifl_slot ifl) \<noteq> Inr k \<Longrightarrow>
   bs' ! k = bs ! k"
proof (induction ifls arbitrary: bs)
  case Nil
  then show ?case by simp
next
  case (Cons ifl ifls)
  from Cons.prems(1) obtain bs1 where 1: "ifl_step shape bs ifl = Inr bs1"
    and 2: "ifl_loop shape bs1 ifls = Inr bs'"
    by (auto simp: and_then_eq_Inr)
  from 1 Cons.prems(2) have "bs1 ! k = bs ! k"
    by (auto simp: ifl_step_Inr)
  moreover from Cons.IH [OF 2] Cons.prems(2) have "bs' ! k = bs1 ! k" by simp
  ultimately show ?case by simp
qed

lemma ifl_loop_last_writer:
  "ifl_loop shape bs ifls = Inr bs' \<Longrightarrow> j < length ifls \<Longrightarrow>
   py_slot (length (sh_materials shape)) (ifl_slot (ifls ! j)) = Inr k \<Longrightarrow>
   \<forall>j'. j < j' \<and> j' < length ifls \<longrightarrow>
      py_slot (length (sh_materials shape)) (ifl_slot (ifls ! j')) \<noteq> Inr k \<Longrightarrow>
   \<exists>n mat. py_index (sh_names shape) (ifl_name (ifls ! j)) = Inr n \<and> k < length bs'
      \<and> bs' ! k = ifl_props n (ifls ! j) mat"
proof (induction ifls arbitrary: bs j)
  case Nil
  then show ?case by simp
next
  case (Cons ifl ifls)
  from Cons.prems(1) obtain bs1 where 1: "ifl_step shape bs ifl = Inr bs1"
    and 2: "ifl_loop shape bs1 ifls = Inr bs'"
    by (auto simp: and_then_eq_Inr)
  show ?case
  proof (cases j)
    case 0
    with Cons.prems(3) have slot: "py_slot (length (sh_materials shape)) (ifl_slot ifl) = Inr k"
      by simp
    with 1 obtain n where n: "py_index (sh_names shape) (ifl_name ifl) = Inr n"
      and k: "k < length bs" and bs1: "bs1 = bs[k := ifl_props n ifl (bs ! k)]"
      by (auto simp: ifl_step_Inr)
    have later: "\<forall>ifl\<in>set ifls. py_slot (length (sh_materials shape)) (ifl_slot ifl) \<noteq> Inr k"
    proof
      fix e assume "e \<in> set ifls"
      then obtain m where "m < length ifls" "e = ifls ! m" by (auto simp: in_set_conv_nth)
      with Cons.prems(4) [rule_format, of "Suc m"] 0
      show "py_slot (length (sh_materials shape)) (ifl_slot e) \<noteq> Inr k" by simp
    qed
    from ifl_loop_untouched [OF 2 later] have "bs' ! k = ifl_props n ifl (bs ! k)"
      using k by (simp add: bs1)
    moreover from ifl_loop_keeps [OF 2] k have "k < length bs'" by (simp add: bs1)
    ultimately show ?thesis using n 0 by auto
  next
    case (Suc m)
    with Cons.prems have m: "m < length ifls"
      "py_slot (length (sh_materials shape)) (ifl_slot (ifls ! m)) = Inr k"
      by simp_all
    have later: "\<forall>j'. m < j' \<and> j' < length ifls \<longrightarrow>
        py_slot (length (sh_materials shape)) (ifl_slot (ifls ! j')) \<noteq> Inr k"
    proof (intro allI impI)
      fix j' assume "m < j' \<and> j' < length ifls"
      with Cons.prems(4) [rule_format, of "Suc j'"] Suc
      show "py_slot (length (sh_materials shape)) (ifl_slot (ifls ! j')) \<noteq> Inr k" by simp
    qed
    from Cons.IH [OF 2 m later] show ?thesis using Suc by simp
  qed
qed

lemma bind_texture_props:
  "bind_texture h k dmat b = Inr b' \<Longrightarrow> bm_props b' = bm_props b"
  by (auto simp: bind_texture_def split: option.splits)

lemma flag_props_ifl:
  "bm_props (flag_props mc flags b) ''ifl''
     = (if flags AND IFLMaterial mc \<noteq> 0 then Some (PBool True) else bm_props b ''ifl'')"
  by (simp add: flag_props_def Let_def set_when_def set_prop_def split: option.splits)

lemma import_material_ifl:
  "import_material mc h k dmat = Inr b \<Longrightarrow>
   bm_props b ''ifl'' = (if mat_flags dmat AND IFLMaterial mc \<noteq> 0 then Some (PBool True) else None)"
  by (auto simp: import_material_def and_then_eq_Inr flag_props_ifl materials_new_def
      dest!: bind_texture_props)

lemma import_materials_Inr:
  "import_materials mc h k ds = Inr bs \<Longrightarrow>
   length bs = length ds \<and>
   (\<forall>j<length ds. bm_props (bs ! j) ''ifl''
      = (if mat_flags (ds ! j) AND IFLMaterial mc \<noteq> 0 then Some (PBool True) else None))"
proof (induction ds arbitrary: k bs)
  case Nil
  then show ?case by simp
next
  case (Cons d ds)
  from Cons.prems obtain b bs1 where b: "import_material mc h k d = Inr b"
    and bs1: "import_materials mc h (Suc k) ds = Inr bs1" and bs: "bs = b # bs1"
    by (auto simp: and_then_eq_Inr)
  from Cons.IH [OF bs1] import_material_ifl [OF b] show ?case
    by (auto simp: bs nth_Cons split: nat.splits)
qed

text \<open>
  C8. Let the materials be resolved to the handles \<open>bs\<close>; a handle carries the property
  \<open>ifl\<close> exactly when its descriptor has the IFL flag. If an IFL entry references a handle
  without that property the import aborts, and it aborts with the KeyError of line 199
  (the source has no error class of its own; \<open>mat["ifl"]\<close> fails before the \<open>assert\<close>
  compares) when the entries before it were processed. If every entry references a
  handle with the property and names an existing name, the propagation succeeds, and the
  handle of a slot holds the name, first frame, frame count and time of the last entry
  that references the slot.
\<close>

theorem ifl_propagation:
  assumes "import_materials mc h 0 (sh_materials shape) = Inr bs"
  shows
    "(\<forall>k<length bs. bm_props (bs ! k) ''ifl''
        = (if mat_flags (sh_materials shape ! k) AND IFLMaterial mc \<noteq> 0
           then Some (PBool True) else None))
     \<and> ((\<exists>ifl\<in>set (sh_iflmaterials shape). \<exists>k.
            py_slot (length (sh_materials shape)) (ifl_slot ifl) = Inr k
            \<and> bm_props (bs ! k) ''ifl'' = None) \<longrightarrow>
          (\<exists>e. load mc pc h groups0 shape node_mode hide = Inl e))
     \<and> (sh_iflmaterials shape = pre @ ifl # post \<and> ifl_loop shape bs pre = Inr bs1
          \<and> py_slot (length (sh_materials shape)) (ifl_slot ifl) = Inr k
          \<and> bm_props (bs ! k) ''ifl'' = None \<longrightarrow>
          load mc pc h groups0 shape node_mode hide = Inl KeyError)
     \<and> ((\<forall>ifl\<in>set (sh_iflmaterials shape). \<exists>k n.
            py_slot (length (sh_materials shape)) (ifl_slot ifl) = Inr k
            \<and> bm_props (bs ! k) ''ifl'' = Some (PBool True)
            \<and> py_index (sh_names shape) (ifl_name ifl) = Inr n) \<longrightarrow>
          (\<exists>bs'. ifl_loop shape bs (sh_iflmaterials shape) = Inr bs' \<and> length bs' = length bs
             \<and> (\<forall>j<length (sh_iflmaterials shape). \<forall>k.
                  py_slot (length (sh_materials shape)) (ifl_slot (sh_iflmaterials shape ! j)) = Inr k
                  \<and> (\<forall>j'. j < j' \<and> j' < length (sh_iflmaterials shape) \<longrightarrow>
                        py_slot (length (sh_materials shape)) (ifl_slot (sh_iflmaterials shape ! j'))
                          \<noteq> Inr k) \<longrightarrow>
                  (\<exists>n. py_index (sh_names shape) (ifl_name (sh_iflmaterials shape ! j)) = Inr n
                      \<and> bm_props (bs' ! k) ''iflName'' = Some (PStr n))
                  \<and> bm_props (bs' ! k) ''iflFirstFrame''
                      = Some (PInt (firstFrame (sh_iflmaterials shape ! j)))
                  \<and> bm_props (bs' ! k) ''iflNumFrames''
                      = Some (PInt (numFrames (sh_iflmaterials shape ! j)))
                  \<and> bm_props (bs' ! k) ''iflTime''
                      = Some (PReal (ifl_time (sh_iflmaterials shape ! j))))))"
proof (intro conjI impI)
  note bs = import_materials_Inr [OF assms]
  from bs have len: "length bs = length (sh_materials shape)" by simp
  have slot_lt: "k < length bs" if "py_slot (length (sh_materials shape)) i = Inr k" for i k
    using that by (auto simp: py_slot_def len split: if_splits)
  show "\<forall>k<length bs. bm_props (bs ! k) ''ifl''
        = (if mat_flags (sh_materials shape ! k) AND IFLMaterial mc \<noteq> 0
           then Some (PBool True) else None)"
    using bs by simp
  {
    assume "\<exists>ifl\<in>set (sh_iflmaterials shape). \<exists>k.
            py_slot (length (sh_materials shape)) (ifl_slot ifl) = Inr k
            \<and> bm_props (bs ! k) ''ifl'' = None"
    then have "\<exists>ifl\<in>set (sh_iflmaterials shape). \<exists>k.
            py_slot (length (sh_materials shape)) (ifl_slot ifl) = Inr k
            \<and> k < length bs \<and> bm_props (bs ! k) ''ifl'' = None"
      using slot_lt by blast
    from ifl_loop_no_flag [OF this] obtain e where
      "ifl_loop shape bs (sh_iflmaterials shape) = Inl e" by blast
    then show "\<exists>e. load mc pc h groups0 shape node_mode hide = Inl e"
      by (simp add: load_def assms)
  }
  {
    assume a: "sh_iflmaterials shape = pre @ ifl # post \<and> ifl_loop shape bs pre = Inr bs1
          \<and> py_slot (length (sh_materials shape)) (ifl_slot ifl) = Inr k
          \<and> bm_props (bs ! k) ''ifl'' = None"
    then have pre: "ifl_loop shape bs pre = Inr bs1"
      and slot: "py_slot (length (sh_materials shape)) (ifl_slot ifl) = Inr k"
      and none: "bm_props (bs ! k) ''ifl'' = None"
      by simp_all
    from ifl_loop_keeps [OF pre] none slot_lt [OF slot]
    have "k < length bs1" "bm_props (bs1 ! k) ''ifl'' = None" by simp_all
    from ifl_step_no_flag [OF slot this] have "ifl_step shape bs1 ifl = Inl KeyError" .
    with a have "ifl_loop shape bs (sh_iflmaterials shape) = Inl KeyError"
      by (simp add: ifl_loop_append)
    then show "load mc pc h groups0 shape node_mode hide = Inl KeyError"
      by (simp add: load_def assms)
  }
  {
    assume a: "\<forall>ifl\<in>set (sh_iflmaterials shape). \<exists>k n.
            py_slot (length (sh_materials shape)) (ifl_slot ifl) = Inr k
            \<and> bm_props (bs ! k) ''ifl'' = Some (PBool True)
            \<and> py_index (sh_names shape) (ifl_name ifl) = Inr n"
    then have "\<forall>ifl\<in>set (sh_iflmaterials shape). \<exists>k n.
            py_slot (length (sh_materials shape)) (ifl_slot ifl) = Inr k
            \<and> k < length bs \<and> bm_props (bs ! k) ''ifl'' = Some (PBool True)
            \<and> py_index (sh_names shape) (ifl_name ifl) = Inr n"
      using slot_lt by blast
    from ifl_loop_total [OF this] obtain bs' where
      run: "ifl_loop shape bs (sh_iflmaterials shape) = Inr bs'" by blast
    have "(\<exists>n. py_index (sh_names shape) (ifl_name (sh_iflmaterials shape ! j)) = Inr n
                      \<and> bm_props (bs' ! k) ''iflName'' = Some (PStr n))
                  \<and> bm_props (bs' ! k) ''iflFirstFrame''
                      = Some (PInt (firstFrame (sh_iflmaterials shape ! j)))
                  \<and> bm_props (bs' ! k) ''iflNumFrames''
                      = Some (PInt (numFrames (sh_iflmaterials shape ! j)))
                  \<and> bm_props (bs' ! k) ''iflTime''
                      = Some (PReal (ifl_time (sh_iflmaterials shape ! j)))"
      if j: "j < length (sh_iflmaterials shape)"
        and s: "py_slot (length (sh_materials shape)) (ifl_slot (sh_iflmaterials shape ! j)) = Inr k
                  \<and> (\<forall>j'. j < j' \<and> j' < length (sh_iflmaterials shape) \<longrightarrow>
                        py_slot (length (sh_materials shape)) (ifl_slot (sh_iflmaterials shape ! j'))
                          \<noteq> Inr k)"
      for j k
    proof -
      from s have s1: "py_slot (length (sh_materials shape)) (ifl_slot (sh_iflmaterials shape ! j)) = Inr k"
        and s2: "\<forall>j'. j < j' \<and> j' < length (sh_iflmaterials shape) \<longrightarrow>
                        py_slot (length (sh_materials shape)) (ifl_slot (sh_iflmaterials shape ! j'))
                          \<noteq> Inr k"
        by simp_all
      from ifl_loop_last_writer [OF run j s1 s2] obtain n mat where
        "py_index (sh_names shape) (ifl_name (sh_iflmaterials shape ! j)) = Inr n"
        "bs' ! k = ifl_props n (sh_iflmaterials shape ! j) mat"
        by blast
      then show ?thesis by (simp add: ifl_props_values)
    qed
    with run ifl_loop_keeps [OF run]
    show "\<exists>bs'. ifl_loop shape bs (sh_iflmaterials shape) = Inr bs' \<and> length bs' = length bs
             \<and> (\<forall>j<length (sh_iflmaterials shape). \<forall>k.
                  py_slot (length (sh_materials shape)) (ifl_slot (sh_iflmaterials shape ! j)) = Inr k
                  \<and> (\<forall>j'. j < j' \<and> j' < length (sh_iflmaterials shape) \<longrightarrow>
                        py_slot (length (sh_materials shape)) (ifl_slot (sh_iflmaterials shape ! j'))
                          \<noteq> Inr k) \<longrightarrow>
                  (\<exists>n. py_index (sh_names shape) (ifl_name (sh_iflmaterials shape ! j)) = Inr n
                      \<and> bm_props (bs' ! k) ''iflName'' = Some (PStr n))
                  \<and> bm_props (bs' ! k) ''iflFirstFrame''
                      = Some (PInt (firstFrame (sh_iflmaterials shape ! j)))
                  \<and> bm_props (bs' ! k) ''iflNumFrames''
                      = Some (PInt (numFrames (sh_iflmaterials shape ! j)))
                  \<and> bm_props (bs' ! k) ''iflTime''
                      = Some (PReal (ifl_time (sh_iflmaterials shape ! j))))"
      by (intro exI [of _ bs']) simp
  }
qed

theorem ifl_propagation_witness:
  "(\<exists>bs. import_materials Material_dts host_plain 0 (sh_materials shape_demo) = Inr bs
      \<and> bm_props (bs ! 0) ''ifl'' = None \<and> bm_props (bs ! 1) ''ifl'' = Some (PBool True)
      \<and> (\<exists>bs'. ifl_loop shape_demo bs (sh_iflmaterials shape_demo) = Inr bs'
            \<and> bm_props (bs' ! 1) ''iflName'' = Some (PStr ''flame'')
            \<and> bm_props (bs' ! 1) ''iflNumFrames'' = Some (PInt 4)))
   \<and> load Material_dts Primitive_dts host_plain Map.empty shape_ifl_plain ''EMPTY'' False
       = Inl KeyError"
proof -
  obtain b1 b2 where m: "import_materials Material_dts host_plain 0 (sh_materials shape_demo) = Inr [b1, b2]"
    and f: "bm_props b2 ''ifl'' = Some (PBool True)" "bm_props b1 ''ifl'' = None"
    using import_materials_demo by blast
  have ifls: "sh_iflmaterials shape_demo
      = [\<lparr> ifl_slot = 1, ifl_name = 4, firstFrame = 0, numFrames = 4, ifl_time = 1 / 2 \<rparr>]"
    and mats: "length (sh_materials shape_demo) = 2"
    and names: "sh_names shape_demo = [''root'', ''arm'', ''body'', ''detail32'', ''flame'']"
    by (simp_all add: shape_demo_def)
  have slot1: "py_slot 2 1 = Inr (Suc 0)" and slot0: "py_slot 2 0 = Inr 0"
    by (simp_all add: py_slot_def)
  have name4: "py_index [''root'', ''arm'', ''body'', ''detail32'', ''flame''] 4 = Inr ''flame''"
    by (simp add: py_index_def py_slot_def)
  have ok: "\<forall>ifl\<in>set (sh_iflmaterials shape_demo). \<exists>k n.
            py_slot (length (sh_materials shape_demo)) (ifl_slot ifl) = Inr k
            \<and> bm_props ([b1, b2] ! k) ''ifl'' = Some (PBool True)
            \<and> py_index (sh_names shape_demo) (ifl_name ifl) = Inr n"
    by (simp add: ifls mats names slot1 f name4)
  from ifl_propagation [OF m, of Primitive_dts Map.empty "''EMPTY''" False "[]"] ok
  obtain bs' where run: "ifl_loop shape_demo [b1, b2] (sh_iflmaterials shape_demo) = Inr bs'"
    and last: "\<forall>j<length (sh_iflmaterials shape_demo). \<forall>k.
                  py_slot (length (sh_materials shape_demo)) (ifl_slot (sh_iflmaterials shape_demo ! j)) = Inr k
                  \<and> (\<forall>j'. j < j' \<and> j' < length (sh_iflmaterials shape_demo) \<longrightarrow>
                        py_slot (length (sh_materials shape_demo)) (ifl_slot (sh_iflmaterials shape_demo ! j'))
                          \<noteq> Inr k) \<longrightarrow>
                  (\<exists>n. py_index (sh_names shape_demo) (ifl_name (sh_iflmaterials shape_demo ! j)) = Inr n
                      \<and> bm_props (bs' ! k) ''iflName'' = Some (PStr n))
                  \<and> bm_props (bs' ! k) ''iflFirstFrame''
                      = Some (PInt (firstFrame (sh_iflmaterials shape_demo ! j)))
                  \<and> bm_props (bs' ! k) ''iflNumFrames''
                      = Some (PInt (numFrames (sh_iflmaterials shape_demo ! j)))
                  \<and> bm_props (bs' ! k) ''iflTime''
                      = Some (PReal (ifl_time (sh_iflmaterials shape_demo ! j)))"
    by blast
  from last [rule_format, of 0 "Suc 0"] have
    "bm_props (bs' ! 1) ''iflName'' = Some (PStr ''flame'')
     \<and> bm_props (bs' ! 1) ''iflNumFrames'' = Some (PInt 4)"
    by (auto simp: ifls mats names slot1 name4)
  with m f run have 1: "\<exists>bs. import_materials Material_dts host_plain 0 (sh_materials shape_demo) = Inr bs
      \<and> bm_props (bs ! 0) ''ifl'' = None \<and> bm_props (bs ! 1) ''ifl'' = Some (PBool True)
      \<and> (\<exists>bs'. ifl_loop shape_demo bs (sh_iflmaterials shape_demo) = Inr bs'
            \<and> bm_props (bs' ! 1) ''iflName'' = Some (PStr ''flame'')
            \<and> bm_props (bs' ! 1) ''iflNumFrames'' = Some (PInt 4))"
    by (intro exI [of _ "[b1, b2]"]) simp
  have m': "import_materials Material_dts host_plain 0 (sh_materials shape_ifl_plain) = Inr [b1, b2]"
    using m by (simp add: shape_ifl_plain_def)
  have bad: "sh_iflmaterials shape_ifl_plain
       = [] @ \<lparr> ifl_slot = 0, ifl_name = 4, firstFrame = 0, numFrames = 4, ifl_time = 1 / 2 \<rparr> # []
     \<and> ifl_loop shape_ifl_plain [b1, b2] [] = Inr [b1, b2]
     \<and> py_slot (length (sh_materials shape_ifl_plain))
          (ifl_slot \<lparr> ifl_slot = 0, ifl_name = 4, firstFrame = 0, numFrames = 4, ifl_time = 1 / 2 \<rparr>) = Inr 0
     \<and> bm_props ([b1, b2] ! 0) ''ifl'' = None"
    by (simp add: shape_ifl_plain_def mats slot0 f)
  from ifl_propagation [OF m', of Primitive_dts Map.empty "''EMPTY''" False "[]"
      "\<lparr> ifl_slot = 0, ifl_name = 4, firstFrame = 0, numFrames = 4, ifl_time = 1 / 2 \<rparr>" "[]" "[b1, b2]" 0]
    bad
  have 2: "load Material_dts Primitive_dts host_plain Map.empty shape_ifl_plain ''EMPTY'' False
       = Inl KeyError"
    by blast
  from 1 2 show ?thesis by blast
qed

section \<open>The object loop\<close>

lemma find_append_first:
  "find P (xs @ ys) = (case find P xs of None \<Rightarrow> find P ys | Some x \<Rightarrow> Some x)"
  by (induction xs) simp_all

lemma lod_by_mesh_last:
  "lod_by_mesh m lods i = (case last_lod_for lods i of None \<Rightarrow> m i | Some lod \<Rightarrow> Some lod)"
proof (induction lods arbitrary: m)
  case Nil
  show ?case by (simp add: last_lod_for_def)
next
  case (Cons lod lods)
  show ?case
    by (simp add: Cons.IH) (simp add: last_lod_for_def find_append_first split: option.splits)
qed

lemma lod_by_mesh_empty: "lod_by_mesh Map.empty lods i = last_lod_for lods i"
  by (simp add: lod_by_mesh_last split: option.splits)

lemma item_loop_append:
  "item_loop pc shape bs lods node_obs hide sc (xs @ ys)
     = and_then (item_loop pc shape bs lods node_obs hide sc xs)
         (\<lambda>sc'. item_loop pc shape bs lods node_obs hide sc' ys)"
proof (induction xs arbitrary: sc)
  case Nil
  show ?case by simp
next
  case (Cons x xs)
  obtain obj mi where x: "x = (obj, mi)" by (cases x)
  show ?case
    by (cases "place_mesh pc shape bs lods node_obs hide sc obj mi") (simp_all add: x Cons.IH)
qed

lemma mesh_loop_items:
  "mesh_loop pc shape bs lods node_obs hide sc obj mis
     = item_loop pc shape bs lods node_obs hide sc (map (Pair obj) mis)"
proof (induction mis arbitrary: sc)
  case Nil
  show ?case by simp
next
  case (Cons mi mis)
  show ?case
    by (cases "place_mesh pc shape bs lods node_obs hide sc obj mi") (simp_all add: Cons.IH)
qed

lemma object_loop_items:
  "object_loop pc shape bs lods node_obs hide sc objs
     = item_loop pc shape bs lods node_obs hide sc (work_items objs)"
proof (induction objs arbitrary: sc)
  case Nil
  show ?case by (simp add: work_items_def)
next
  case (Cons obj objs)
  have w: "work_items (obj # objs) = map (Pair obj) (py_range 0 (numMeshes obj) 1) @ work_items objs"
    by (simp add: work_items_def)
  show ?case
    by (cases "item_loop pc shape bs lods node_obs hide sc (map (Pair obj) (py_range 0 (numMeshes obj) 1))")
       (simp_all add: w item_loop_append mesh_loop_items Cons.IH)
qed

lemma group_link_new: "\<exists>ms. group_link g ob gs g = Some ms \<and> ob \<in> set ms"
  by (simp add: group_link_def split: option.splits)

lemma group_link_keeps:
  "gs g' = Some ms \<Longrightarrow> x \<in> set ms \<Longrightarrow> \<exists>ms'. group_link g ob gs g' = Some ms' \<and> x \<in> set ms'"
  by (auto simp: group_link_def split: option.splits)

lemma place_mesh_skip:
  "\<not> is_standard shape (obj, mi) \<Longrightarrow>
   place_mesh pc shape bs lods node_obs hide sc obj mi = Inr sc' \<Longrightarrow> sc' = sc"
  by (auto simp: place_mesh_def is_standard_def and_then_eq_Inr split: if_splits)

lemma place_mesh_standard:
  assumes "is_standard shape (obj, mi)"
    and "place_mesh pc shape bs lods node_obs hide sc obj mi = Inr sc'"
  shows "\<exists>mesh me lod g bobj.
           py_index (sh_meshes shape) (firstMesh obj + mi) = Inr mesh
           \<and> create_bmesh pc shape (materials_of bs) mesh = Inr me
           \<and> lods mi = Some lod \<and> py_index (sh_names shape) (lod_name lod) = Inr g
           \<and> ob_data bobj = Some me
           \<and> sc_objects sc' = sc_objects sc @ [bobj]
           \<and> sc_groups sc' = group_link g (length (sc_objects sc)) (sc_groups sc)"
proof -
  from assms(1) obtain mesh where mesh: "py_index (sh_meshes shape) (firstMesh obj + mi) = Inr mesh"
    and std: "mesh_type mesh = Standard"
    by (auto simp: is_standard_def split: sum.splits)
  from assms(2) show ?thesis
    by (auto simp: place_mesh_def mesh std and_then_eq_Inr split: option.splits)
qed

lemma place_mesh_no_lod:
  "is_standard shape (obj, mi) \<Longrightarrow> lods mi = None \<Longrightarrow>
   \<exists>e. place_mesh pc shape bs lods node_obs hide sc obj mi = Inl e"
proof -
  assume s: "is_standard shape (obj, mi)" and n: "lods mi = None"
  show ?thesis
  proof (cases "place_mesh pc shape bs lods node_obs hide sc obj mi")
    case (Inl e)
    then show ?thesis by blast
  next
    case (Inr sc')
    from place_mesh_standard [OF s Inr] n show ?thesis by auto
  qed
qed

lemma item_loop_Inr:
  assumes "item_loop pc shape bs lods node_obs hide sc items = Inr sc'"
  shows "\<exists>new. sc_objects sc' = sc_objects sc @ new
     \<and> length new = length (filter (is_standard shape) items)
     \<and> (\<forall>g ms x. sc_groups sc g = Some ms \<and> x \<in> set ms \<longrightarrow>
           (\<exists>ms'. sc_groups sc' g = Some ms' \<and> x \<in> set ms'))
     \<and> (\<forall>k<length (filter (is_standard shape) items).
           \<exists>mesh me lod g ms.
             py_index (sh_meshes shape)
               (firstMesh (fst (filter (is_standard shape) items ! k))
                  + snd (filter (is_standard shape) items ! k)) = Inr mesh
             \<and> create_bmesh pc shape (materials_of bs) mesh = Inr me
             \<and> ob_data (new ! k) = Some me
             \<and> lods (snd (filter (is_standard shape) items ! k)) = Some lod
             \<and> py_index (sh_names shape) (lod_name lod) = Inr g
             \<and> sc_groups sc' g = Some ms \<and> length (sc_objects sc) + k \<in> set ms)"
  using assms
proof (induction items arbitrary: sc)
  case Nil
  then show ?case by simp
next
  case (Cons item items)
  obtain obj mi where item: "item = (obj, mi)" by (cases item)
  from Cons.prems obtain sc1 where
    1: "place_mesh pc shape bs lods node_obs hide sc obj mi = Inr sc1"
    and 2: "item_loop pc shape bs lods node_obs hide sc1 items = Inr sc'"
    by (auto simp: item and_then_eq_Inr)
  let ?std = "filter (is_standard shape) items"
  from Cons.IH [OF 2] obtain new1 where
    objs: "sc_objects sc' = sc_objects sc1 @ new1"
    and len: "length new1 = length ?std"
    and mono: "\<And>g ms x. sc_groups sc1 g = Some ms \<Longrightarrow> x \<in> set ms \<Longrightarrow>
           \<exists>ms'. sc_groups sc' g = Some ms' \<and> x \<in> set ms'"
    and each: "\<And>k. k < length ?std \<Longrightarrow>
           \<exists>mesh me lod g ms.
             py_index (sh_meshes shape) (firstMesh (fst (?std ! k)) + snd (?std ! k)) = Inr mesh
             \<and> create_bmesh pc shape (materials_of bs) mesh = Inr me
             \<and> ob_data (new1 ! k) = Some me
             \<and> lods (snd (?std ! k)) = Some lod
             \<and> py_index (sh_names shape) (lod_name lod) = Inr g
             \<and> sc_groups sc' g = Some ms \<and> length (sc_objects sc1) + k \<in> set ms"
    by blast
  show ?case
  proof (cases "is_standard shape (obj, mi)")
    case False
    from place_mesh_skip [OF False 1] have "sc1 = sc" .
    with objs len mono each False show ?thesis
      by (intro exI [of _ new1]) (simp add: item)
  next
    case True
    from place_mesh_standard [OF True 1] obtain mesh me lod g bobj where
      p: "py_index (sh_meshes shape) (firstMesh obj + mi) = Inr mesh"
         "create_bmesh pc shape (materials_of bs) mesh = Inr me"
         "lods mi = Some lod" "py_index (sh_names shape) (lod_name lod) = Inr g"
         "ob_data bobj = Some me"
      and o1: "sc_objects sc1 = sc_objects sc @ [bobj]"
      and g1: "sc_groups sc1 = group_link g (length (sc_objects sc)) (sc_groups sc)"
      by blast
    have f: "filter (is_standard shape) (item # items) = (obj, mi) # ?std"
      unfolding item using True by simp
    have A: "sc_objects sc' = sc_objects sc @ (bobj # new1)"
      by (simp add: objs o1)
    have B: "length (bobj # new1) = length (filter (is_standard shape) (item # items))"
      unfolding f by (simp add: len)
    have C: "\<exists>ms'. sc_groups sc' g' = Some ms' \<and> x \<in> set ms'"
      if "sc_groups sc g' = Some ms \<and> x \<in> set ms" for g' ms x
    proof -
      from that group_link_keeps [of "sc_groups sc" g' ms x g "length (sc_objects sc)"]
      obtain ms1 where "sc_groups sc1 g' = Some ms1" "x \<in> set ms1"
        by (auto simp: g1)
      then show ?thesis by (rule mono)
    qed
    have D: "\<exists>mesh me lod g ms.
             py_index (sh_meshes shape) (firstMesh (fst (((obj, mi) # ?std) ! k))
                  + snd (((obj, mi) # ?std) ! k)) = Inr mesh
             \<and> create_bmesh pc shape (materials_of bs) mesh = Inr me
             \<and> ob_data ((bobj # new1) ! k) = Some me
             \<and> lods (snd (((obj, mi) # ?std) ! k)) = Some lod
             \<and> py_index (sh_names shape) (lod_name lod) = Inr g
             \<and> sc_groups sc' g = Some ms \<and> length (sc_objects sc) + k \<in> set ms"
      if "k < length ((obj, mi) # ?std)" for k
    proof (cases k)
      case 0
      from group_link_new [of g "length (sc_objects sc)" "sc_groups sc"] obtain ms1 where
        "sc_groups sc1 g = Some ms1" "length (sc_objects sc) \<in> set ms1"
        by (auto simp: g1)
      from mono [OF this] obtain ms where "sc_groups sc' g = Some ms" "length (sc_objects sc) \<in> set ms"
        by blast
      with p 0 show ?thesis by auto
    next
      case (Suc k')
      with that have "k' < length ?std" by simp
      from each [OF this] show ?thesis by (simp add: Suc o1)
    qed
    show ?thesis
      using A B C D by (intro exI [of _ "bobj # new1"]) (simp only: f, blast)
  qed
qed

lemma item_loop_no_lod:
  assumes "\<exists>item\<in>set items. is_standard shape item \<and> lods (snd item) = None"
  shows "\<exists>e. item_loop pc shape bs lods node_obs hide sc items = Inl e"
  using assms
proof (induction items arbitrary: sc)
  case Nil
  then show ?case by simp
next
  case (Cons item items)
  obtain obj mi where item: "item = (obj, mi)" by (cases item)
  show ?case
  proof (cases "place_mesh pc shape bs lods node_obs hide sc obj mi")
    case (Inl e)
    then show ?thesis by (simp add: item)
  next
    case (Inr sc1)
    have "\<not> (is_standard shape (obj, mi) \<and> lods mi = None)"
      using place_mesh_no_lod [of shape obj mi lods pc bs node_obs hide sc] Inr by auto
    with Cons.prems have "\<exists>item\<in>set items. is_standard shape item \<and> lods (snd item) = None"
      by (auto simp: item)
    from Cons.IH [OF this] show ?thesis by (simp add: item Inr)
  qed
qed

lemma and_then_fails: "(\<And>x. \<exists>e. f x = Inl e) \<Longrightarrow> \<exists>e. and_then r f = Inl e"
  by (cases r) simp_all

text \<open>
  C10. When the import succeeds, the mesh objects created are, in order, those of the
  standard pairs of object and mesh index; the object of a pair with mesh index \<open>i\<close> is a
  member of the group named after the last detail level, in shape order, whose
  \<open>objectDetail\<close> is \<open>i\<close>. When some standard pair has no detail level with its mesh
  index, the import fails.
\<close>

theorem mesh_objects_grouped:
  "(load mc pc h groups0 shape node_mode hide = Inr ld \<longrightarrow>
      length (sc_objects (ld_scene ld))
        = length (filter (is_standard shape) (work_items (sh_objects shape)))
      \<and> (\<forall>k<length (filter (is_standard shape) (work_items (sh_objects shape))).
            \<exists>mesh me lod g ms.
              py_index (sh_meshes shape)
                (firstMesh (fst (filter (is_standard shape) (work_items (sh_objects shape)) ! k))
                   + snd (filter (is_standard shape) (work_items (sh_objects shape)) ! k)) = Inr mesh
              \<and> create_bmesh pc shape (materials_of (ld_materials ld)) mesh = Inr me
              \<and> ob_data (sc_objects (ld_scene ld) ! k) = Some me
              \<and> last_lod_for (sh_detail_levels shape)
                    (snd (filter (is_standard shape) (work_items (sh_objects shape)) ! k)) = Some lod
              \<and> py_index (sh_names shape) (lod_name lod) = Inr g
              \<and> sc_groups (ld_scene ld) g = Some ms \<and> k \<in> set ms))
   \<and> ((\<exists>item\<in>set (work_items (sh_objects shape)).
          is_standard shape item \<and> last_lod_for (sh_detail_levels shape) (snd item) = None) \<longrightarrow>
        (\<exists>e. load mc pc h groups0 shape node_mode hide = Inl e))"
proof (intro conjI impI)
  let ?lods = "lod_by_mesh Map.empty (sh_detail_levels shape)"
  let ?std = "filter (is_standard shape) (work_items (sh_objects shape))"
  assume "load mc pc h groups0 shape node_mode hide = Inr ld"
  from load_Inr [OF this] have
    "item_loop pc shape (ld_materials ld) ?lods (ld_node_obs ld) hide
       \<lparr> sc_objects = [], sc_groups = groups0 \<rparr> (work_items (sh_objects shape)) = Inr (ld_scene ld)"
    by (auto simp: object_loop_items)
  from item_loop_Inr [OF this] obtain new where
    objs: "sc_objects (ld_scene ld) = new" and len: "length new = length ?std"
    and each: "\<forall>k<length ?std.
           \<exists>mesh me lod g ms.
             py_index (sh_meshes shape) (firstMesh (fst (?std ! k)) + snd (?std ! k)) = Inr mesh
             \<and> create_bmesh pc shape (materials_of (ld_materials ld)) mesh = Inr me
             \<and> ob_data (new ! k) = Some me
             \<and> ?lods (snd (?std ! k)) = Some lod
             \<and> py_index (sh_names shape) (lod_name lod) = Inr g
             \<and> sc_groups (ld_scene ld) g = Some ms \<and> k \<in> set ms"
    by auto
  show "length (sc_objects (ld_scene ld)) = length ?std"
    by (simp add: objs len)
  show "\<forall>k<length ?std.
            \<exists>mesh me lod g ms.
              py_index (sh_meshes shape) (firstMesh (fst (?std ! k)) + snd (?std ! k)) = Inr mesh
              \<and> create_bmesh pc shape (materials_of (ld_materials ld)) mesh = Inr me
              \<and> ob_data (sc_objects (ld_scene ld) ! k) = Some me
              \<and> last_lod_for (sh_detail_levels shape) (snd (?std ! k)) = Some lod
              \<and> py_index (sh_names shape) (lod_name lod) = Inr g
              \<and> sc_groups (ld_scene ld) g = Some ms \<and> k \<in> set ms"
    using each by (simp add: objs lod_by_mesh_empty)
next
  assume "\<exists>item\<in>set (work_items (sh_objects shape)).
          is_standard shape item \<and> last_lod_for (sh_detail_levels shape) (snd item) = None"
  then have "\<exists>item\<in>set (work_items (sh_objects shape)).
          is_standard shape item \<and> lod_by_mesh Map.empty (sh_detail_levels shape) (snd item) = None"
    by (simp add: lod_by_mesh_empty)
  from item_loop_no_lod [OF this]
  have "\<exists>e. object_loop pc shape bs (lod_by_mesh Map.empty (sh_detail_levels shape)) node_obs hide sc
            (sh_objects shape) = Inl e" for bs node_obs sc
    by (simp add: object_loop_items)
  then have F: "\<exists>e. and_then (object_loop pc shape bs (lod_by_mesh Map.empty (sh_detail_levels shape))
            node_obs hide sc (sh_objects shape)) f = Inl e" for bs node_obs sc
      and f :: "scene \<Rightarrow> error + loaded"
    by (metis and_then_Inl)
  show "\<exists>e. load mc pc h groups0 shape node_mode hide = Inl e"
    unfolding load_def
    by (rule and_then_fails, rule and_then_fails, rule and_then_fails, rule and_then_fails, rule F)
qed

lemma work_items_demo:
  "work_items (sh_objects shape_demo) = [(\<lparr> obj_name = 2, obj_node = 0, firstMesh = 0, numMeshes = 1 \<rparr>, 0)]"
  by (simp add: work_items_def shape_demo_def py_range_step py_range_empty)

lemma is_standard_demo:
  "is_standard shape_demo (\<lparr> obj_name = 2, obj_node = 0, firstMesh = 0, numMeshes = 1 \<rparr>, 0)"
  by (simp add: is_standard_def shape_demo_def py_index_def py_slot_def mesh_demo_def)

theorem mesh_objects_grouped_witness:
  "(\<exists>ld ms. load Material_dts Primitive_dts host_plain Map.empty shape_demo ''EMPTY'' False = Inr ld
       \<and> length (sc_objects (ld_scene ld)) = 1
       \<and> last_lod_for (sh_detail_levels shape_demo) 0 = Some \<lparr> lod_name = 3, objectDetail = 0 \<rparr>
       \<and> sc_groups (ld_scene ld) ''detail32'' = Some ms \<and> 0 \<in> set ms)
   \<and> (\<exists>item\<in>set (work_items (sh_objects shape_no_lod)).
         is_standard shape_no_lod item \<and> last_lod_for (sh_detail_levels shape_no_lod) (snd item) = None)
   \<and> (\<exists>e. load Material_dts Primitive_dts host_plain Map.empty shape_no_lod ''EMPTY'' False = Inl e)"
proof -
  obtain ld where ld: "load Material_dts Primitive_dts host_plain Map.empty shape_demo ''EMPTY'' False = Inr ld"
    using load_demo by blast
  have std: "filter (is_standard shape_demo) (work_items (sh_objects shape_demo))
      = [(\<lparr> obj_name = 2, obj_node = 0, firstMesh = 0, numMeshes = 1 \<rparr>, 0)]"
    by (simp add: work_items_demo is_standard_demo)
  have lod: "last_lod_for (sh_detail_levels shape_demo) 0 = Some \<lparr> lod_name = 3, objectDetail = 0 \<rparr>"
    by (simp add: last_lod_for_def shape_demo_def)
  have nm: "py_index (sh_names shape_demo) 3 = Inr ''detail32''"
    by (simp add: shape_demo_def py_index_def py_slot_def)
  from mesh_objects_grouped [of Material_dts Primitive_dts host_plain Map.empty shape_demo "''EMPTY''" False ld] ld
  have len: "length (sc_objects (ld_scene ld)) = 1"
    and "\<exists>mesh me lod g ms.
              py_index (sh_meshes shape_demo) 0 = Inr mesh
              \<and> create_bmesh Primitive_dts shape_demo (materials_of (ld_materials ld)) mesh = Inr me
              \<and> ob_data (sc_objects (ld_scene ld) ! 0) = Some me
              \<and> last_lod_for (sh_detail_levels shape_demo) 0 = Some lod
              \<and> py_index (sh_names shape_demo) (lod_name lod) = Inr g
              \<and> sc_groups (ld_scene ld) g = Some ms \<and> 0 \<in> set ms"
    by (simp_all add: std)
  then obtain ms where "sc_groups (ld_scene ld) ''detail32'' = Some ms" "0 \<in> set ms"
    by (auto simp: lod nm)
  with ld len lod have 1: "\<exists>ld ms. load Material_dts Primitive_dts host_plain Map.empty shape_demo ''EMPTY'' False = Inr ld
       \<and> length (sc_objects (ld_scene ld)) = 1
       \<and> last_lod_for (sh_detail_levels shape_demo) 0 = Some \<lparr> lod_name = 3, objectDetail = 0 \<rparr>
       \<and> sc_groups (ld_scene ld) ''detail32'' = Some ms \<and> 0 \<in> set ms"
    by blast
  have w: "work_items (sh_objects shape_no_lod) = work_items (sh_objects shape_demo)"
    by (simp add: shape_no_lod_def)
  have s: "is_standard shape_no_lod (\<lparr> obj_name = 2, obj_node = 0, firstMesh = 0, numMeshes = 1 \<rparr>, 0)"
    using is_standard_demo by (simp add: is_standard_def shape_no_lod_def)
  have n: "last_lod_for (sh_detail_levels shape_no_lod) 0 = None"
    by (simp add: last_lod_for_def shape_no_lod_def)
  have 2: "\<exists>item\<in>set (work_items (sh_objects shape_no_lod)).
         is_standard shape_no_lod item \<and> last_lod_for (sh_detail_levels shape_no_lod) (snd item) = None"
    using s n by (simp add: w work_items_demo)
  with mesh_objects_grouped [of Material_dts Primitive_dts host_plain Map.empty shape_no_lod "''EMPTY''" False]
  have 3: "\<exists>e. load Material_dts Primitive_dts host_plain Map.empty shape_no_lod ''EMPTY'' False = Inl e"
    by blast
  from 1 2 3 show ?thesis by blast
qed

end
